theory Spec2Isabelle
  imports Complex_Main
begin

section \<open>Shared data: JSON values, Python exceptions, Python string helpers\<close>

text \<open>
  The values \<^verbatim>\<open>json.loads\<close> and \<^verbatim>\<open>response.json()\<close> return. A JSON object keeps its
  members as an association list.
\<close>

datatype json =
    JNull
  | JBool bool
  | JNum int
  | JStr string
  | JArr "json list"
  | JObj "(string \<times> json) list"

text \<open>The exceptions the modelled functions raise, each a value of the error side of a sum.\<close>

datatype py_error =
    UnboundLocalError string
  | ValueError string
  | KeyError string
  | TypeError string
  | IndexError string
  | ZeroDivisionError string
  | RequestException
  | JwksFetchError string

text \<open>\<^verbatim>\<open>s.startswith(p)\<close>, \<^verbatim>\<open>sep.join(xs)\<close> and \<^verbatim>\<open>sub in s\<close> on byte strings.\<close>

fun startswith :: "string \<Rightarrow> string \<Rightarrow> bool" where
  "startswith s [] = True"
| "startswith [] (p # ps) = False"
| "startswith (c # cs) (p # ps) = (c = p \<and> startswith cs ps)"

fun join :: "string \<Rightarrow> string list \<Rightarrow> string" where
  "join sep [] = []"
| "join sep [x] = x"
| "join sep (x # y # ys) = x @ sep @ join sep (y # ys)"

fun contains_str :: "string \<Rightarrow> string \<Rightarrow> bool" where
  "contains_str sub [] = (sub = [])"
| "contains_str sub (c # cs) = (startswith (c # cs) sub \<or> contains_str sub cs)"

text \<open>
  \<^verbatim>\<open>str.lower()\<close> on the ASCII letters; other characters are left as they are, which
  changes neither a test for the text \<^verbatim>\<open>json\<close> nor one for the prefix \<^verbatim>\<open>local\<close>.
\<close>

definition lower_char :: "char \<Rightarrow> char" where
  "lower_char c =
     (case map_of (zip ''ABCDEFGHIJKLMNOPQRSTUVWXYZ'' ''abcdefghijklmnopqrstuvwxyz'') c of
        None \<Rightarrow> c
      | Some l \<Rightarrow> l)"

section \<open>Key/value store\<close>

text \<open>
  Modelled from the spec: the store behind \<^verbatim>\<open>get_redis()\<close> (auth\_helper/common.py is not
  among the sources). Section 4.J names the operations \<^verbatim>\<open>get\<close>, \<^verbatim>\<open>set\<close> and \<^verbatim>\<open>expire\<close>;
  a key with a time to live is gone once the wall clock reaches its deadline, and \<^verbatim>\<open>set\<close>
  stores a value with no deadline. Times are microseconds on the wall clock.
\<close>

type_synonym datetime = int

definition minutes :: "int \<Rightarrow> int" where
  "minutes m = m * 60 * 1000000"

record 'v redis_entry =
  entry_value :: 'v
  entry_deadline :: "datetime option"

type_synonym 'v redis = "string \<rightharpoonup> 'v redis_entry"

definition redis_get :: "'v redis \<Rightarrow> datetime \<Rightarrow> string \<Rightarrow> 'v option" where
  "redis_get r t k =
     (case r k of
        None \<Rightarrow> None
      | Some e \<Rightarrow>
          (case entry_deadline e of
             None \<Rightarrow> Some (entry_value e)
           | Some d \<Rightarrow> if t < d then Some (entry_value e) else None))"

definition redis_set :: "'v redis \<Rightarrow> string \<Rightarrow> 'v \<Rightarrow> 'v redis" where
  "redis_set r k v = r(k \<mapsto> \<lparr>entry_value = v, entry_deadline = None\<rparr>)"

definition redis_expire :: "'v redis \<Rightarrow> datetime \<Rightarrow> string \<Rightarrow> int \<Rightarrow> 'v redis" where
  "redis_expire r t k ttl =
     (case r k of
        None \<Rightarrow> r
      | Some e \<Rightarrow> r(k \<mapsto> e\<lparr>entry_deadline := Some (t + ttl)\<rparr>))"

section \<open>Authority token broker (auth\_helper/dss\_auth\_helper.py)\<close>

text \<open>
  \<^verbatim>\<open>datetime.isoformat()\<close> prints the fraction of a second only when the microsecond
  field is not zero; \<^verbatim>\<open>strptime(s, "%Y-%m-%dT%H:%M:%S.%f")\<close> demands the fraction. The
  two shapes of the text are the two constructors.
\<close>

datatype iso_text =
    Iso_seconds int
  | Iso_micros int

definition isoformat :: "datetime \<Rightarrow> iso_text" where
  "isoformat t = (if t mod 1000000 = 0 then Iso_seconds (t div 1000000) else Iso_micros t)"

fun strptime_f :: "iso_text \<Rightarrow> py_error + datetime" where
  "strptime_f (Iso_micros t) = Inr t"
| "strptime_f (Iso_seconds s) = Inl (ValueError ''time data does not match format'')"

record token_details =
  td_credentials :: json
  td_created_at :: iso_text

datatype http_request =
    Get string "(string \<times> string option) list"
  | PostForm string "(string \<times> string option) list"

record http_response =
  status_code :: int
  json_body :: "json option"

text \<open>
  The six components \<^verbatim>\<open>urllib.parse.urlparse\<close> returns, and \<^verbatim>\<open>geturl()\<close> on them
  (\<^verbatim>\<open>urlunparse\<close>, then \<^verbatim>\<open>urlunsplit\<close>). The parser itself is a parameter below.
\<close>

record ParseResult =
  url_scheme :: string
  url_netloc :: string
  url_path :: string
  url_params :: string
  url_query :: string
  url_fragment :: string

definition uses_netloc :: "string list" where
  "uses_netloc =
     [''ftp'', ''http'', ''gopher'', ''nntp'', ''telnet'', ''imap'', ''wais'', ''file'', ''mms'',
      ''https'', ''shttp'', ''snews'', ''prospero'', ''rtsp'', ''rtspu'', ''rsync'', ''svn'',
      ''svn+ssh'', ''sftp'', ''nfs'', ''git'', ''git+ssh'', ''ws'', ''wss'']"

definition urlunsplit :: "string \<Rightarrow> string \<Rightarrow> string \<Rightarrow> string \<Rightarrow> string \<Rightarrow> string" where
  "urlunsplit scheme netloc url query fragment =
     (let url = (if netloc \<noteq> [] \<or> (scheme \<noteq> [] \<and> scheme \<in> set uses_netloc \<and> take 2 url \<noteq> ''//'')
                 then ''//'' @ netloc @ (if url \<noteq> [] \<and> take 1 url \<noteq> ''/'' then ''/'' @ url else url)
                 else url);
          url = (if scheme \<noteq> [] then scheme @ '':'' @ url else url);
          url = (if query \<noteq> [] then url @ ''?'' @ query else url);
          url = (if fragment \<noteq> [] then url @ ''#'' @ fragment else url)
      in url)"

definition geturl :: "ParseResult \<Rightarrow> string" where
  "geturl p =
     urlunsplit (url_scheme p) (url_netloc p)
       (if url_params p \<noteq> [] then url_path p @ '';'' @ url_params p else url_path p)
       (url_query p) (url_fragment p)"

text \<open>
  What the broker reads from outside: the environment variables, the answer of the
  network to the n-th request of a run (\<open>Inl\<close> when \<^verbatim>\<open>requests\<close> raises), and
  \<^verbatim>\<open>urlparse\<close> of the standard library (\<open>Inl\<close> when it raises \<^verbatim>\<open>ValueError\<close>).
\<close>

record broker_ctx =
  DSS_AUTH_URL :: "string option"
  DSS_AUTH_TOKEN_ENDPOINT :: "string option"
  DSS_SELF_AUDIENCE :: "string option"
  AUTH_DSS_CLIENT_ID :: "string option"
  AUTH_DSS_CLIENT_SECRET :: "string option"
  http :: "nat \<Rightarrow> http_request \<Rightarrow> py_error + http_response"
  urlparse :: "string \<Rightarrow> py_error + ParseResult"

text \<open>The state the broker changes: the store, and the logs of its writes and requests.\<close>

record world =
  store :: "token_details redis"
  set_log :: "string list"
  http_log :: "http_request list"

record AuthorityCredentialsGetter =
  now :: datetime

definition env_get :: "string option \<Rightarrow> string \<Rightarrow> string" where
  "env_get v dflt = (case v of None \<Rightarrow> dflt | Some s \<Rightarrow> s)"

definition send :: "broker_ctx \<Rightarrow> http_request \<Rightarrow> world \<Rightarrow> (py_error + http_response) \<times> world" where
  "send ctx req w = (http ctx (length (http_log w)) req, w\<lparr>http_log := http_log w @ [req]\<rparr>)"

definition try_parse_json :: "http_response \<Rightarrow> py_error + json" where
  "try_parse_json response =
     (case json_body response of
        None \<Rightarrow> Inl (ValueError ''Expecting value'')
      | Some j \<Rightarrow> Inr j)"

definition is_local_dummy_oauth :: "string \<Rightarrow> bool" where
  "is_local_dummy_oauth auth_server_url =
     (startswith auth_server_url ''http://local_'' \<or> startswith auth_server_url ''http://local-''
      \<or> startswith auth_server_url ''https://local_'' \<or> startswith auth_server_url ''https://local-'')"

definition request_credentials ::
  "broker_ctx \<Rightarrow> string \<Rightarrow> string list \<Rightarrow> world \<Rightarrow> (py_error + json) \<times> world" where
  "request_credentials ctx audience scopes w =
     (let issuer = (if audience = ''localhost'' then Some audience else None);
          scopes_str = join '' '' scopes;
          auth_server_url = env_get (DSS_AUTH_URL ctx) ''http://host.docker.internal:8085''
                            @ env_get (DSS_AUTH_TOKEN_ENDPOINT ctx) ''/auth/token''
      in if is_local_dummy_oauth auth_server_url then
           (let payload = [(''grant_type'', Some ''client_credentials''),
                           (''intended_audience'', DSS_SELF_AUDIENCE ctx),
                           (''scope'', Some scopes_str),
                           (''issuer'', issuer)]
            in case send ctx (Get auth_server_url payload) w of
                 (Inl e, w1) \<Rightarrow> (Inl e, w1)
               | (Inr token_data, w1) \<Rightarrow> (try_parse_json token_data, w1))
         else
           (let payload = [(''grant_type'', Some ''client_credentials''),
                           (''client_id'', AUTH_DSS_CLIENT_ID ctx),
                           (''client_secret'', AUTH_DSS_CLIENT_SECRET ctx),
                           (''audience'', Some audience),
                           (''scope'', Some scopes_str)]
            in case send ctx (PostForm auth_server_url payload) w of
                 (Inl e, w1) \<Rightarrow> (Inl e, w1)
               | (Inr token_data, w1) \<Rightarrow>
                   (case (if status_code token_data = 200 then json_body token_data else None) of
                      Some j \<Rightarrow> (Inr j, w1)
                    | None \<Rightarrow>
                        (case urlparse ctx auth_server_url of
                           Inl e \<Rightarrow> (Inl e, w1)
                         | Inr parsed \<Rightarrow>
                             (let get_url = geturl (parsed\<lparr>url_path := ''/token''\<rparr>);
                                  get_payload = [(''grant_type'', Some ''client_credentials''),
                                                 (''intended_audience'', DSS_SELF_AUDIENCE ctx),
                                                 (''scope'', Some scopes_str),
                                                 (''issuer'', issuer)]
                              in case send ctx (Get get_url get_payload) w1 of
                                   (Inl e, w2) \<Rightarrow> (Inl e, w2)
                                 | (Inr token_data_get, w2) \<Rightarrow>
                                     (try_parse_json token_data_get, w2))))))"

definition get_rid_credentials :: "broker_ctx \<Rightarrow> string \<Rightarrow> world \<Rightarrow> (py_error + json) \<times> world" where
  "get_rid_credentials ctx audience w =
     request_credentials ctx audience [''rid.service_provider'', ''rid.display_provider''] w"

definition get_scd_credentials :: "broker_ctx \<Rightarrow> string \<Rightarrow> world \<Rightarrow> (py_error + json) \<times> world" where
  "get_scd_credentials ctx audience w =
     request_credentials ctx audience
       [''utm.strategic_coordination'', ''utm.conformance_monitoring_sa''] w"

definition get_constraints_credentials ::
  "broker_ctx \<Rightarrow> string \<Rightarrow> world \<Rightarrow> (py_error + json) \<times> world" where
  "get_constraints_credentials ctx audience w =
     request_credentials ctx audience [''utm.constraint_processing''] w"

definition get_credentials ::
  "broker_ctx \<Rightarrow> string \<Rightarrow> string \<Rightarrow> world \<Rightarrow> (py_error + json) \<times> world" where
  "get_credentials ctx audience token_type w =
     (if token_type = ''rid'' then get_rid_credentials ctx audience w
      else if token_type = ''scd'' then get_scd_credentials ctx audience w
      else if token_type = ''constraints'' then get_constraints_credentials ctx audience w
      else (Inl (ValueError ''Invalid token type''), w))"

text \<open>
  \<^verbatim>\<open>_cache_credentials\<close>: one \<^verbatim>\<open>set\<close> of the credentials with the instance's \<^verbatim>\<open>now\<close> as
  \<^verbatim>\<open>created_at\<close>, then \<^verbatim>\<open>expire\<close> with 58 minutes, counted from the wall clock \<open>t\<close> of
  that call.
\<close>

definition cache_credentials ::
  "AuthorityCredentialsGetter \<Rightarrow> datetime \<Rightarrow> string \<Rightarrow> json \<Rightarrow> world \<Rightarrow> world" where
  "cache_credentials self t cache_key credentials w =
     w\<lparr>store := redis_expire
                  (redis_set (store w) cache_key
                     \<lparr>td_credentials = credentials, td_created_at = isoformat (now self)\<rparr>)
                  t cache_key (minutes 58),
       set_log := set_log w @ [cache_key]\<rparr>"

text \<open>
  The suffix chain of \<^verbatim>\<open>get_cached_credentials\<close> has no \<^verbatim>\<open>else\<close>: for any other token
  type the local \<^verbatim>\<open>token_suffix\<close> is never bound.
\<close>

definition token_suffix_of :: "string \<Rightarrow> string option" where
  "token_suffix_of token_type =
     (if token_type = ''rid'' then Some ''_auth_rid_token''
      else if token_type = ''scd'' then Some ''_auth_scd_token''
      else if token_type = ''constraints'' then Some ''_auth_constraints_token''
      else None)"

text \<open>
  \<^verbatim>\<open>get_cached_credentials\<close>, called when the wall clock shows \<open>t_get\<close> at the lookup
  and \<open>t_set\<close> at the write.
\<close>

definition get_cached_credentials ::
  "broker_ctx \<Rightarrow> AuthorityCredentialsGetter \<Rightarrow> datetime \<Rightarrow> datetime \<Rightarrow> string \<Rightarrow> string
     \<Rightarrow> world \<Rightarrow> (py_error + json) \<times> world" where
  "get_cached_credentials ctx self t_get t_set audience token_type w =
     (case token_suffix_of token_type of
        None \<Rightarrow> (Inl (UnboundLocalError ''token_suffix''), w)
      | Some token_suffix \<Rightarrow>
          (let cache_key = audience @ token_suffix;
               refresh = (case get_credentials ctx audience token_type w of
                            (Inl e, w1) \<Rightarrow> (Inl e, w1)
                          | (Inr credentials, w1) \<Rightarrow>
                              (Inr credentials, cache_credentials self t_set cache_key credentials w1))
           in case redis_get (store w) t_get cache_key of
                None \<Rightarrow> refresh
              | Some token_details \<Rightarrow>
                  (case strptime_f (td_created_at token_details) of
                     Inl e \<Rightarrow> (Inl e, w)
                   | Inr set_date \<Rightarrow>
                       if now self < set_date + minutes 58
                       then (Inr (td_credentials token_details), w)
                       else refresh)))"

text \<open>
  Names for the statements below: the configured token endpoint, the requests a call
  adds to the log (method and URL of each, in order), and the cache key of a pair.
\<close>

definition auth_server_url :: "broker_ctx \<Rightarrow> string" where
  "auth_server_url ctx = env_get (DSS_AUTH_URL ctx) ''http://host.docker.internal:8085''
                            @ env_get (DSS_AUTH_TOKEN_ENDPOINT ctx) ''/auth/token''"


definition get_payload :: "broker_ctx \<Rightarrow> string \<Rightarrow> string list \<Rightarrow> (string \<times> string option) list" where
  "get_payload ctx audience scopes =
     [(''grant_type'', Some ''client_credentials''),
      (''intended_audience'', DSS_SELF_AUDIENCE ctx),
      (''scope'', Some (join '' '' scopes)),
      (''issuer'', if audience = ''localhost'' then Some audience else None)]"




definition cache_key_of :: "string \<Rightarrow> string \<Rightarrow> string" where
  "cache_key_of audience token_type = audience @ the (token_suffix_of token_type)"

text \<open>
  A concrete run for the closed statements: no endpoint configured (so the default
  \<^verbatim>\<open>http://host.docker.internal:8085/auth/token\<close> is used, by POST), a token server that
  answers the first request of the run with token \<^verbatim>\<open>t1\<close> and every later one with
  \<^verbatim>\<open>t2\<close>, and an empty store. \<open>first_call n t\<close> is the call of an instance constructed
  at \<open>n\<close>, made at wall-clock time \<open>t\<close>; \<open>second_call n1 t1 n2 t2\<close> is the call that
  an instance constructed at \<open>n2\<close> makes at \<open>t2\<close> on the state the first call left.
\<close>

definition example_ctx :: broker_ctx where
  "example_ctx =
     \<lparr>DSS_AUTH_URL = None, DSS_AUTH_TOKEN_ENDPOINT = None,
      DSS_SELF_AUDIENCE = Some ''dss.example'',
      AUTH_DSS_CLIENT_ID = Some ''id'', AUTH_DSS_CLIENT_SECRET = Some ''secret'',
      http = (\<lambda>n req. Inr \<lparr>status_code = 200,
                json_body = Some (JObj [(''access_token'', JStr (if n = 0 then ''t1'' else ''t2''))])\<rparr>),
      urlparse = (\<lambda>u. Inr \<lparr>url_scheme = ''http'', url_netloc = ''host.docker.internal:8085'',
                           url_path = ''/auth/token'', url_params = [], url_query = [],
                           url_fragment = []\<rparr>)\<rparr>"

definition empty_world :: world where
  "empty_world = \<lparr>store = Map.empty, set_log = [], http_log = []\<rparr>"

definition first_call :: "datetime \<Rightarrow> datetime \<Rightarrow> (py_error + json) \<times> world" where
  "first_call n t =
     get_cached_credentials example_ctx \<lparr>now = n\<rparr> t t ''dss.example'' ''rid'' empty_world"

definition second_call ::
  "datetime \<Rightarrow> datetime \<Rightarrow> datetime \<Rightarrow> datetime \<Rightarrow> (py_error + json) \<times> world" where
  "second_call n1 t1 n2 t2 =
     get_cached_credentials example_ctx \<lparr>now = n2\<rparr> t2 t2 ''dss.example'' ''rid''
       (snd (first_call n1 t1))"




section \<open>Properties of the token broker\<close>

text \<open>
  C8. For a token type outside rid, scd and constraints the call does not reach the
  \<^verbatim>\<open>ValueError("Invalid token type")\<close> of \<^verbatim>\<open>_get_credentials\<close>: building the cache key reads
  the unbound local and raises \<^verbatim>\<open>UnboundLocalError\<close>. The store is not written. Evaluated
  at the token type \<^verbatim>\<open>"foo"\<close>.
\<close>

theorem get_cached_credentials_invalid_token_type:
  "get_cached_credentials ctx self t_get t_set ''dss.example'' ''foo'' w
     = (Inl (UnboundLocalError ''token_suffix''), w)"
  by (simp add: get_cached_credentials_def token_suffix_of_def)

subsection \<open>Transport selection\<close>









subsection \<open>Cache hits and misses\<close>

lemma request_credentials_keeps:
  "request_credentials ctx audience scopes w = (r, w1) \<Longrightarrow>
     store w1 = store w \<and> set_log w1 = set_log w \<and> length (http_log w) < length (http_log w1)"
  unfolding request_credentials_def send_def Let_def
  by (auto split: sum.splits option.splits if_splits)

lemma get_credentials_keeps:
  "get_credentials ctx audience token_type w = (Inr c, w1) \<Longrightarrow>
     store w1 = store w \<and> set_log w1 = set_log w \<and> length (http_log w) < length (http_log w1)"
  unfolding get_credentials_def get_rid_credentials_def get_scd_credentials_def
        get_constraints_credentials_def
  by (auto dest: request_credentials_keeps split: if_splits)

lemma cached_hit:
  assumes "token_suffix_of token_type = Some sfx"
    and "redis_get (store w) t_get (audience @ sfx) = Some td"
    and "strptime_f (td_created_at td) = Inr d"
    and "now self < d + minutes 58"
  shows "get_cached_credentials ctx self t_get t_set audience token_type w
           = (Inr (td_credentials td), w)"
  using assms by (simp add: get_cached_credentials_def Let_def)

lemma cached_unparsable:
  assumes "token_suffix_of token_type = Some sfx"
    and "redis_get (store w) t_get (audience @ sfx) = Some td"
    and "strptime_f (td_created_at td) = Inl e"
  shows "get_cached_credentials ctx self t_get t_set audience token_type w = (Inl e, w)"
  using assms by (simp add: get_cached_credentials_def Let_def)

lemma cached_refresh:
  assumes "token_suffix_of token_type = Some sfx"
    and "get_cached_credentials ctx self t_get t_set audience token_type w = (Inr c, w1)"
    and "http_log w1 \<noteq> http_log w"
  shows "\<exists>w'. get_credentials ctx audience token_type w = (Inr c, w')
           \<and> w1 = cache_credentials self t_set (audience @ sfx) c w'"
  using assms
  by (auto simp add: get_cached_credentials_def Let_def
      split: option.splits sum.splits prod.splits if_splits)

lemma cache_credentials_store:
  "store (cache_credentials self t k c w) k =
     Some \<lparr>entry_value = \<lparr>td_credentials = c, td_created_at = isoformat (now self)\<rparr>,
           entry_deadline = Some (t + minutes 58)\<rparr>"
  by (simp add: cache_credentials_def redis_expire_def redis_set_def)

lemma cache_credentials_log:
  "set_log (cache_credentials self t k c w) = set_log w @ [k]"
  by (simp add: cache_credentials_def)

lemma token_suffix_valid:
  "token_type \<in> {''rid'', ''scd'', ''constraints''} \<Longrightarrow> \<exists>sfx. token_suffix_of token_type = Some sfx"
  by (auto simp: token_suffix_of_def)

lemma get_credentials_grows:
  "get_credentials ctx audience token_type w = (r, w1) \<Longrightarrow> token_suffix_of token_type = Some sfx \<Longrightarrow>
     length (http_log w) < length (http_log w1)"
  unfolding get_credentials_def get_rid_credentials_def get_scd_credentials_def
        get_constraints_credentials_def token_suffix_of_def
  by (auto dest: request_credentials_keeps split: if_splits)

lemma cache_credentials_http: "http_log (cache_credentials self t k c w) = http_log w"
  by (simp add: cache_credentials_def)

text \<open>A stale record leads to a request: the log of requests grows.\<close>

lemma cached_stale:
  assumes sfx: "token_suffix_of token_type = Some sfx"
    and got: "redis_get (store w) t_get (audience @ sfx) = Some td"
    and parsed: "strptime_f (td_created_at td) = Inr d"
    and stale: "\<not> now self < d + minutes 58"
  shows "length (http_log w)
           < length (http_log (snd (get_cached_credentials ctx self t_get t_set audience token_type w)))"
proof (cases "get_credentials ctx audience token_type w")
  case (Pair r w1)
  then have g: "length (http_log w) < length (http_log w1)"
    using get_credentials_grows sfx by blast
  show ?thesis
  proof (cases r)
    case (Inl e)
    with Pair g sfx got parsed stale show ?thesis
      by (simp add: get_cached_credentials_def Let_def)
  next
    case (Inr c)
    with Pair g sfx got parsed stale show ?thesis
      by (simp add: get_cached_credentials_def Let_def cache_credentials_http)
  qed
qed

lemma served_iff_fresh:
  assumes sfx: "token_suffix_of token_type = Some sfx"
    and got: "redis_get (store w) t_get (audience @ sfx) = Some td"
    and parsed: "strptime_f (td_created_at td) = Inr d"
  shows "(get_cached_credentials ctx self t_get t_set audience token_type w
            = (Inr (td_credentials td), w)) = (now self < d + minutes 58)"
proof (cases "now self < d + minutes 58")
  case True
  then show ?thesis using cached_hit [OF sfx got parsed] by simp
next
  case False
  have "length (http_log w)
           < length (http_log (snd (get_cached_credentials ctx self t_get t_set audience token_type w)))"
    by (rule cached_stale [OF sfx got parsed False])
  then have "snd (get_cached_credentials ctx self t_get t_set audience token_type w) \<noteq> w"
    by auto
  with False show ?thesis by auto
qed

lemmas broker_defs =
  get_cached_credentials_def token_suffix_of_def get_credentials_def get_rid_credentials_def
  request_credentials_def is_local_dummy_oauth_def env_get_def send_def try_parse_json_def
  cache_credentials_def redis_get_def redis_set_def redis_expire_def isoformat_def
  example_ctx_def empty_world_def first_call_def Let_def minutes_def

lemma first_call_fst: "fst (first_call n t) = Inr (JObj [(''access_token'', JStr ''t1'')])"
  by (simp add: broker_defs)

lemma first_call_http: "length (http_log (snd (first_call n t))) = 1"
  by (simp add: broker_defs)

lemma first_call_eq:
  "get_cached_credentials example_ctx \<lparr>now = n\<rparr> t t ''dss.example'' ''rid'' empty_world
     = (Inr (JObj [(''access_token'', JStr ''t1'')]), snd (first_call n t))"
  using first_call_fst [of n t] by (metis first_call_def prod.collapse)

lemma first_call_miss: "http_log (snd (first_call n t)) \<noteq> http_log empty_world"
  using first_call_http [of n t] by (auto simp: empty_world_def)

subsection \<open>Reuse of cached credentials\<close>

text \<open>
  C3, as the code has it. Let the token type be rid, scd or constraints, and let a first
  call, made through an instance constructed at \<open>now inst1\<close>, miss (it issues a request)
  and return credentials \<open>c\<close>, its write happening at wall-clock time \<open>t1'\<close>. Then the
  store holds under the pair's key exactly \<open>c\<close> with \<open>created_at = now inst1\<close> (the
  construction time of the instance, not the time of the call) and a deadline 58 minutes
  after \<open>t1'\<close>, and that call wrote once. A second call at wall-clock time \<open>t2\<close>,
  through an instance constructed at \<open>now inst2\<close>, returns the same credentials and
  leaves the state as it is (no request, no write) provided the record is still in the
  store (\<open>t2 < t1' + 58 min\<close>), the second instance was constructed less than 58 minutes
  after the first (\<open>now inst2 < now inst1 + 58 min\<close>), and the stored \<open>created_at\<close>
  reads back (the first construction time has a non-zero microsecond field). Last
  conjunct: a record found in the store whose \<open>created_at\<close> reads back as \<open>d\<close> is
  served exactly when \<open>now inst < d + 58 min\<close>, with \<open>now inst\<close> the construction time of
  the calling instance.
\<close>

theorem cached_credentials_reused:
  assumes tt: "token_type \<in> {''rid'', ''scd'', ''constraints''}"
    and first: "get_cached_credentials ctx inst1 t1 t1' audience token_type w = (Inr c, w1)"
    and miss: "http_log w1 \<noteq> http_log w"
    and micro: "now inst1 mod 1000000 \<noteq> 0"
    and present: "t2 < t1' + minutes 58"
    and fresh: "now inst2 < now inst1 + minutes 58"
  shows "get_cached_credentials ctx inst2 t2 t2' audience token_type w1 = (Inr c, w1)
       \<and> set_log w1 = set_log w @ [cache_key_of audience token_type]
       \<and> store w1 (cache_key_of audience token_type)
           = Some \<lparr>entry_value = \<lparr>td_credentials = c, td_created_at = isoformat (now inst1)\<rparr>,
                   entry_deadline = Some (t1' + minutes 58)\<rparr>
       \<and> (\<forall>inst t t' w0 td d.
             redis_get (store w0) t (cache_key_of audience token_type) = Some td
               \<and> strptime_f (td_created_at td) = Inr d
             \<longrightarrow> (get_cached_credentials ctx inst t t' audience token_type w0
                    = (Inr (td_credentials td), w0)) = (now inst < d + minutes 58))"
proof -
  from tt obtain sfx where sfx: "token_suffix_of token_type = Some sfx"
    using token_suffix_valid by blast
  then have key: "cache_key_of audience token_type = audience @ sfx"
    by (simp add: cache_key_of_def)
  from cached_refresh [OF sfx first miss] obtain w' where
    g: "get_credentials ctx audience token_type w = (Inr c, w')" and
    w1: "w1 = cache_credentials inst1 t1' (audience @ sfx) c w'"
    by blast
  have st: "store w1 (audience @ sfx)
           = Some \<lparr>entry_value = \<lparr>td_credentials = c, td_created_at = isoformat (now inst1)\<rparr>,
                   entry_deadline = Some (t1' + minutes 58)\<rparr>"
    unfolding w1 by (rule cache_credentials_store)
  have lg: "set_log w1 = set_log w @ [audience @ sfx]"
    using get_credentials_keeps [OF g] by (simp add: w1 cache_credentials_log)
  have rg: "redis_get (store w1) t2 (audience @ sfx)
              = Some \<lparr>td_credentials = c, td_created_at = isoformat (now inst1)\<rparr>"
    using st present by (simp add: redis_get_def)
  have sp: "strptime_f (td_created_at \<lparr>td_credentials = c, td_created_at = isoformat (now inst1)\<rparr>)
              = Inr (now inst1)"
    using micro by (simp add: isoformat_def)
  have hit: "get_cached_credentials ctx inst2 t2 t2' audience token_type w1 = (Inr c, w1)"
    using cached_hit [OF sfx rg sp fresh] by simp
  have iff: "\<forall>inst t t' w0 td d.
             redis_get (store w0) t (cache_key_of audience token_type) = Some td
               \<and> strptime_f (td_created_at td) = Inr d
             \<longrightarrow> (get_cached_credentials ctx inst t t' audience token_type w0
                    = (Inr (td_credentials td), w0)) = (now inst < d + minutes 58)"
    unfolding key using served_iff_fresh [OF sfx] by blast
  from hit st lg key iff show ?thesis by simp
qed

text \<open>
  C3 as written fails when "now" is the time of the call. The first instance is
  constructed at time 1 and used at minute 30, where it misses and caches token \<^verbatim>\<open>t1\<close>
  with \<open>created_at = 1\<close>. A second instance constructed and used at minute 70, which is
  within 58 minutes of the miss, finds the record but judges it by its own construction
  time, requests again and gets \<^verbatim>\<open>t2\<close>: two requests, two writes. And the first
  instance itself, used again at minute 70, is served the record although minute 70 is
  not before \<open>created_at + 58 min\<close>.
\<close>

theorem cached_credentials_refetched_within_58_minutes:
  "fst (first_call 1 (minutes 30)) = Inr (JObj [(''access_token'', JStr ''t1'')])
   \<and> length (http_log (snd (first_call 1 (minutes 30)))) = 1
   \<and> set_log (snd (first_call 1 (minutes 30))) = [''dss.example_auth_rid_token'']
   \<and> minutes 30 \<le> minutes 70 \<and> minutes 70 < minutes 30 + minutes 58
   \<and> fst (second_call 1 (minutes 30) (minutes 70) (minutes 70))
        = Inr (JObj [(''access_token'', JStr ''t2'')])
   \<and> length (http_log (snd (second_call 1 (minutes 30) (minutes 70) (minutes 70)))) = 2
   \<and> set_log (snd (second_call 1 (minutes 30) (minutes 70) (minutes 70)))
        = [''dss.example_auth_rid_token'', ''dss.example_auth_rid_token'']
   \<and> \<not> minutes 70 < 1 + minutes 58
   \<and> second_call 1 (minutes 30) 1 (minutes 70)
        = (Inr (JObj [(''access_token'', JStr ''t1'')]), snd (first_call 1 (minutes 30)))"
  by (simp add: broker_defs second_call_def)

text \<open>The hypotheses of C3's theorem hold together in the concrete run.\<close>

theorem cached_credentials_reused_witness:
  "''rid'' \<in> {''rid'', ''scd'', ''constraints''}
   \<and> get_cached_credentials example_ctx \<lparr>now = 1\<rparr> 2 2 ''dss.example'' ''rid'' empty_world
       = (Inr (JObj [(''access_token'', JStr ''t1'')]), snd (first_call 1 2))
   \<and> http_log (snd (first_call 1 2)) \<noteq> http_log empty_world
   \<and> now \<lparr>now = 1\<rparr> mod 1000000 \<noteq> 0
   \<and> (10::int) < 2 + minutes 58
   \<and> now \<lparr>now = 5\<rparr> < now \<lparr>now = 1\<rparr> + minutes 58
   \<and> second_call 1 2 5 10 = (Inr (JObj [(''access_token'', JStr ''t1'')]), snd (first_call 1 2))
   \<and> set_log (snd (first_call 1 2)) = set_log empty_world @ [cache_key_of ''dss.example'' ''rid'']
   \<and> redis_get (store (snd (first_call 1 2))) 10 (cache_key_of ''dss.example'' ''rid'')
       = Some \<lparr>td_credentials = JObj [(''access_token'', JStr ''t1'')], td_created_at = Iso_micros 1\<rparr>
   \<and> (second_call 1 2 (minutes 60) 10
         = (Inr (JObj [(''access_token'', JStr ''t1'')]), snd (first_call 1 2)))
       = (minutes 60 < 1 + minutes 58)"
proof -
  have tt: "''rid'' \<in> {''rid'', ''scd'', ''constraints''}" by simp
  note first = first_call_eq [of 1 2]
  note miss = first_call_miss [of 1 2]
  have micro: "now \<lparr>now = 1\<rparr> mod 1000000 \<noteq> 0" by simp
  have present: "(10::int) < 2 + minutes 58" by (simp add: minutes_def)
  have fresh: "now \<lparr>now = 5\<rparr> < now \<lparr>now = 1\<rparr> + minutes 58" by (simp add: minutes_def)
  note reused = cached_credentials_reused [OF tt first miss micro present fresh, of 10]
  have rg: "redis_get (store (snd (first_call 1 2))) 10 (cache_key_of ''dss.example'' ''rid'')
       = Some \<lparr>td_credentials = JObj [(''access_token'', JStr ''t1'')], td_created_at = Iso_micros 1\<rparr>"
    using reused present by (simp add: redis_get_def isoformat_def)
  have sp: "strptime_f (td_created_at \<lparr>td_credentials = JObj [(''access_token'', JStr ''t1'')],
              td_created_at = Iso_micros 1\<rparr>) = Inr 1" by simp
  from reused rg sp
  have iff: "(get_cached_credentials example_ctx \<lparr>now = minutes 60\<rparr> 10 10 ''dss.example'' ''rid''
                (snd (first_call 1 2))
         = (Inr (JObj [(''access_token'', JStr ''t1'')]), snd (first_call 1 2)))
       = (minutes 60 < 1 + minutes 58)"
    by (metis AuthorityCredentialsGetter.select_convs(1) token_details.select_convs(1))
  from reused tt first miss micro present fresh rg iff
  show ?thesis by (simp add: second_call_def)
qed

subsection \<open>Which clock decides freshness\<close>

text \<open>
  What the calls of one instance do with the clock. The wall-clock times \<open>t1\<close>,
  \<open>t1'\<close>, \<open>t2\<close>, \<open>t2'\<close> of the calls are arbitrary below; only \<open>now self\<close>, captured
  at construction, enters. First conjunct: a call that misses stores
  \<open>created_at = now self\<close>, whatever the time of the call. Second conjunct: whenever a
  later call through the same instance finds a record that this instance cached, the
  state is unchanged (no request, no write); when the construction time has a non-zero
  microsecond field it compares \<open>now self\<close> with \<open>now self + 58 min\<close> and returns the
  cached credentials, however much real time has passed; when the microsecond field is
  0, the text \<^verbatim>\<open>isoformat()\<close> stored does not match the format of line 61, and the call
  raises \<^verbatim>\<open>ValueError\<close> before it reaches the comparison.
\<close>

theorem freshness_uses_construction_time:
  assumes tt: "token_type \<in> {''rid'', ''scd'', ''constraints''}"
  shows "(get_cached_credentials ctx self t1 t1' audience token_type w = (Inr c, w1)
            \<and> http_log w1 \<noteq> http_log w
          \<longrightarrow> map_option (\<lambda>e. td_created_at (entry_value e)) (store w1 (cache_key_of audience token_type))
                = Some (isoformat (now self)))
       \<and> (redis_get (store w2) t2 (cache_key_of audience token_type) = Some td
            \<and> td_created_at td = isoformat (now self)
          \<longrightarrow> get_cached_credentials ctx self t2 t2' audience token_type w2
                = (if now self mod 1000000 = 0
                   then Inl (ValueError ''time data does not match format'')
                   else Inr (td_credentials td), w2))"
proof -
  from tt obtain sfx where sfx: "token_suffix_of token_type = Some sfx"
    using token_suffix_valid by blast
  then have key: "cache_key_of audience token_type = audience @ sfx"
    by (simp add: cache_key_of_def)
  have stored: "map_option (\<lambda>e. td_created_at (entry_value e)) (store w1 (audience @ sfx))
                = Some (isoformat (now self))"
    if first: "get_cached_credentials ctx self t1 t1' audience token_type w = (Inr c, w1)"
      and miss: "http_log w1 \<noteq> http_log w"
  proof -
    from cached_refresh [OF sfx first miss] obtain w' where
      w1: "w1 = cache_credentials self t1' (audience @ sfx) c w'"
      by blast
    show ?thesis unfolding w1 by (simp add: cache_credentials_store)
  qed
  have later: "get_cached_credentials ctx self t2 t2' audience token_type w2
                = (if now self mod 1000000 = 0
                   then Inl (ValueError ''time data does not match format'')
                   else Inr (td_credentials td), w2)"
    if got: "redis_get (store w2) t2 (audience @ sfx) = Some td"
      and own: "td_created_at td = isoformat (now self)"
  proof (cases "now self mod 1000000 = 0")
    case True
    then have "strptime_f (td_created_at td) = Inl (ValueError ''time data does not match format'')"
      by (simp add: own isoformat_def)
    from cached_unparsable [OF sfx got this] True show ?thesis by simp
  next
    case False
    then have sp: "strptime_f (td_created_at td) = Inr (now self)"
      by (simp add: own isoformat_def)
    have "now self < now self + minutes 58" by (simp add: minutes_def)
    from cached_hit [OF sfx got sp this] False show ?thesis by simp
  qed
  from stored later show ?thesis unfolding key by blast
qed

text \<open>The hypotheses of that theorem at the concrete run: a hit 57 minutes later.\<close>

theorem freshness_uses_construction_time_witness:
  "''rid'' \<in> {''rid'', ''scd'', ''constraints''}
   \<and> get_cached_credentials example_ctx \<lparr>now = 1\<rparr> 2 2 ''dss.example'' ''rid'' empty_world
       = (Inr (JObj [(''access_token'', JStr ''t1'')]), snd (first_call 1 2))
   \<and> http_log (snd (first_call 1 2)) \<noteq> http_log empty_world
   \<and> map_option (\<lambda>e. td_created_at (entry_value e))
        (store (snd (first_call 1 2)) (cache_key_of ''dss.example'' ''rid'')) = Some (isoformat 1)
   \<and> redis_get (store (snd (first_call 1 2))) (minutes 57) (cache_key_of ''dss.example'' ''rid'')
       = Some \<lparr>td_credentials = JObj [(''access_token'', JStr ''t1'')], td_created_at = isoformat 1\<rparr>
   \<and> second_call 1 2 1 (minutes 57)
       = (Inr (JObj [(''access_token'', JStr ''t1'')]), snd (first_call 1 2))"
proof -
  have tt: "''rid'' \<in> {''rid'', ''scd'', ''constraints''}" by simp
  note first = first_call_eq [of 1 2]
  note miss = first_call_miss [of 1 2]
  have rg: "redis_get (store (snd (first_call 1 2))) (minutes 57) (cache_key_of ''dss.example'' ''rid'')
       = Some \<lparr>td_credentials = JObj [(''access_token'', JStr ''t1'')], td_created_at = isoformat 1\<rparr>"
    by (simp add: broker_defs cache_key_of_def)
  note t = freshness_uses_construction_time [OF tt, of example_ctx "\<lparr>now = 1\<rparr>" 2 2 "''dss.example''"
      empty_world "JObj [(''access_token'', JStr ''t1'')]" "snd (first_call 1 2)"
      "snd (first_call 1 2)" "minutes 57"
      "\<lparr>td_credentials = JObj [(''access_token'', JStr ''t1'')], td_created_at = isoformat 1\<rparr>"
      "minutes 57"]
  from t tt first miss rg show ?thesis by (simp add: second_call_def)
qed

text \<open>
  C10. The claim says that a record cached through an instance is always judged fresh
  on the later calls of that instance. It is not when the instance was constructed on a
  whole second: \<^verbatim>\<open>isoformat()\<close> then prints no fraction, and \<^verbatim>\<open>strptime\<close> with the
  format \<^verbatim>\<open>%Y-%m-%dT%H:%M:%S.%f\<close> of line 61 rejects the text. Evaluated for an instance
  constructed at time 0: its first call caches token \<^verbatim>\<open>t1\<close>; its second call, and the
  call of an instance constructed 7 microseconds later, raise \<^verbatim>\<open>ValueError\<close> and leave the
  state as it is.
\<close>

theorem whole_second_record_unreadable:
  "fst (first_call 0 2) = Inr (JObj [(''access_token'', JStr ''t1'')])
   \<and> second_call 0 2 0 10
       = (Inl (ValueError ''time data does not match format''), snd (first_call 0 2))
   \<and> second_call 0 2 7 10
       = (Inl (ValueError ''time data does not match format''), snd (first_call 0 2))"
  by (simp add: broker_defs second_call_def)

section \<open>Scope-enforcing request gate (auth\_helper/utils.py)\<close>

text \<open>
  \<^verbatim>\<open>str.split()\<close> with no argument: the maximal runs of non-whitespace characters. A
  character of a string is a code point below 256; the whitespace among them is what
  \<^verbatim>\<open>str.isspace\<close> accepts there (U+0085 and U+00A0 included).
\<close>

definition is_space :: "char \<Rightarrow> bool" where
  "is_space c = (c \<in> set [CHR '' '', CHR 0x09, CHR 0x0A, CHR 0x0B, CHR 0x0C, CHR 0x0D,
                            CHR 0x1C, CHR 0x1D, CHR 0x1E, CHR 0x1F, CHR 0x85, CHR 0xA0])"

fun split_ws_from :: "string \<Rightarrow> string \<Rightarrow> string list" where
  "split_ws_from cur [] = (if cur = [] then [] else [cur])"
| "split_ws_from cur (c # cs) =
     (if is_space c then (if cur = [] then split_ws_from [] cs else cur # split_ws_from [] cs)
      else split_ws_from (cur @ [c]) cs)"

definition split_ws :: "string \<Rightarrow> string list" where
  "split_ws s = split_ws_from [] s"

text \<open>
  The claims of a decoded token that the gate reads; \<open>None\<close> is an absent claim. What the
  gate gets from PyJWT and \<^verbatim>\<open>urlparse\<close>: the unverified header (\<open>None\<close> for
  \<^verbatim>\<open>DecodeError\<close>, else the \<^verbatim>\<open>kid\<close> if any), the unverified and the verified decoding
  (\<open>None\<close> for the exceptions the gate catches), and scheme and netloc of a URL. The
  JWKS cache enters the verified path through the key sets its lookups return, by
  \<^verbatim>\<open>force_refresh\<close>; \<open>Inl\<close> is \<^verbatim>\<open>JwksFetchError\<close>. The forced refresh before the
  401 for an unknown \<^verbatim>\<open>kid\<close> changes only that cache, and the response texts that embed a
  URL, a \<^verbatim>\<open>kid\<close> or an exception are shortened. \<open>Handler_called\<close> stands for the result of
  the wrapped view.
\<close>

record jwt_claims =
  claim_scope :: "string option"
  claim_iss :: "string option"
  claim_aud :: "string option"

record 'k gate_ctx =
  BYPASS_AUTH_TOKEN_VERIFICATION :: int
  IS_DEBUG :: int
  get_unverified_header :: "string \<Rightarrow> string option option"
  decode_unverified :: "string \<Rightarrow> jwt_claims option"
  decode_verified :: "string \<Rightarrow> 'k \<Rightarrow> jwt_claims option"
  urlparse :: "string \<Rightarrow> string \<times> string"
  passport_jwks :: "bool \<Rightarrow> py_error + (string \<rightharpoonup> 'k)"
  dss_jwks :: "bool \<Rightarrow> py_error + (string \<rightharpoonup> 'k)"

datatype gate_result =
    JsonResponse int string
  | Handler_called

definition decoded_scopes :: "jwt_claims \<Rightarrow> string set" where
  "decoded_scopes d = set (split_ws (case claim_scope d of None \<Rightarrow> [] | Some s \<Rightarrow> s))"

definition handle_bypass_verification :: "'k gate_ctx \<Rightarrow> string \<Rightarrow> string list \<Rightarrow> gate_result" where
  "handle_bypass_verification ctx token required_scopes =
     (case decode_unverified ctx token of
        None \<Rightarrow> JsonResponse 401 ''Invalid token provided''
      | Some unverified_token_details \<Rightarrow>
          if \<not> set required_scopes \<subseteq> decoded_scopes unverified_token_details
          then JsonResponse 403 ''You don't have access to this resource''
          else
            (case claim_iss unverified_token_details of
               None \<Rightarrow> JsonResponse 401 ''Incomplete token provided, issuer (iss) claim must be present and should not be empty''
             | Some iss \<Rightarrow>
                 if iss = [] then JsonResponse 401 ''Incomplete token provided, issuer (iss) claim must be present and should not be empty''
                 else if iss \<noteq> ''dummy''
                         \<and> \<not> (fst (urlparse ctx iss) \<in> {''http'', ''https''} \<and> snd (urlparse ctx iss) \<noteq> [])
                 then JsonResponse 401 ''Issuer (iss) claim is not a valid URL''
                 else
                   (case claim_aud unverified_token_details of
                      None \<Rightarrow> JsonResponse 401 ''Incomplete token provided, audience claim must be present and should not be empty''
                    | Some aud \<Rightarrow>
                        if aud = [] then JsonResponse 401 ''Incomplete token provided, audience claim must be present and should not be empty''
                        else Handler_called)))"

definition bearer_token :: "string option \<Rightarrow> string option" where
  "bearer_token auth =
     (case auth of
        None \<Rightarrow> None
      | Some a \<Rightarrow> (case split_ws a of x # y # rest \<Rightarrow> Some y | _ \<Rightarrow> None))"

definition verified_path ::
  "'k gate_ctx \<Rightarrow> string list \<Rightarrow> bool \<Rightarrow> string \<Rightarrow> string option \<Rightarrow> gate_result" where
  "verified_path ctx required_scopes allow_any token kid =
     (case passport_jwks ctx False of
        Inl e \<Rightarrow> JsonResponse 503 ''Public Key Server necessary to validate the token could not be reached''
      | Inr passport_public_keys \<Rightarrow>
          (let dss_public_keys = (case dss_jwks ctx False of Inl e \<Rightarrow> Map.empty | Inr ks \<Rightarrow> ks);
               public_keys = passport_public_keys ++ dss_public_keys
           in case (case kid of None \<Rightarrow> None | Some k \<Rightarrow> if k = [] then None else public_keys k) of
                None \<Rightarrow> JsonResponse 401 ''Error in parsing public keys, the signing key id is not present in JWKS''
              | Some public_key \<Rightarrow>
                  (case decode_verified ctx token public_key of
                     None \<Rightarrow> JsonResponse 401 ''Invalid token''
                   | Some decoded \<Rightarrow>
                       if (allow_any \<and> decoded_scopes decoded \<inter> set required_scopes \<noteq> {})
                          \<or> set required_scopes \<subseteq> decoded_scopes decoded
                       then Handler_called
                       else JsonResponse 403 ''You don't have access to this resource'')))"

definition decorated ::
  "'k gate_ctx \<Rightarrow> string list \<Rightarrow> bool \<Rightarrow> string option \<Rightarrow> gate_result" where
  "decorated ctx required_scopes allow_any auth =
     (case bearer_token auth of
        None \<Rightarrow> JsonResponse 401 ''Authentication credentials were not provided''
      | Some token \<Rightarrow>
          (case get_unverified_header ctx token of
             None \<Rightarrow> JsonResponse 401 ''Bearer token could not be decoded properly''
           | Some kid \<Rightarrow>
               if BYPASS_AUTH_TOKEN_VERIFICATION ctx \<noteq> 0 \<and> IS_DEBUG ctx \<noteq> 0
               then handle_bypass_verification ctx token required_scopes
               else verified_path ctx required_scopes allow_any token kid))"

text \<open>
  A gate in bypass mode whose tokens all decode to scope \<^verbatim>\<open>read\<close>, issuer \<^verbatim>\<open>dummy\<close> and a
  non-empty audience.
\<close>

definition example_gate :: "unit gate_ctx" where
  "example_gate =
     \<lparr>BYPASS_AUTH_TOKEN_VERIFICATION = 1, IS_DEBUG = 1,
      get_unverified_header = (\<lambda>t. Some (Some ''k1'')),
      decode_unverified = (\<lambda>t. Some \<lparr>claim_scope = Some ''read'', claim_iss = Some ''dummy'',
                                      claim_aud = Some ''testflight.flightblender.com''\<rparr>),
      decode_verified = (\<lambda>t k. None),
      urlparse = (\<lambda>u. ([], [])),
      passport_jwks = (\<lambda>force. Inl (JwksFetchError ''unreachable'')),
      dss_jwks = (\<lambda>force. Inl (JwksFetchError ''unreachable''))\<rparr>"

section \<open>Properties of the request gate\<close>

text \<open>
  C9. With \<^verbatim>\<open>BYPASS_AUTH_TOKEN_VERIFICATION\<close> and \<^verbatim>\<open>IS_DEBUG\<close> both truthy the gate gives
  the same answer for either value of \<^verbatim>\<open>allow_any\<close>. On that path a token that decodes
  but whose scope set does not contain every required scope gets status 403 also when
  \<^verbatim>\<open>allow_any\<close> is true, whatever the intersection of the two sets; and the handler is
  reached only when every required scope is in the token's scope set.
\<close>

theorem bypass_ignores_allow_any:
  assumes "BYPASS_AUTH_TOKEN_VERIFICATION ctx \<noteq> 0" and "IS_DEBUG ctx \<noteq> 0"
  shows "decorated ctx required_scopes allow_any auth = decorated ctx required_scopes False auth
       \<and> (bearer_token auth = Some token \<and> get_unverified_header ctx token = Some kid
            \<and> decode_unverified ctx token = Some d
            \<and> \<not> set required_scopes \<subseteq> decoded_scopes d
          \<longrightarrow> decorated ctx required_scopes True auth
                = JsonResponse 403 ''You don't have access to this resource'')
       \<and> (bearer_token auth = Some token \<and> get_unverified_header ctx token = Some kid
            \<and> decorated ctx required_scopes allow_any auth = Handler_called
          \<longrightarrow> (\<exists>d. decode_unverified ctx token = Some d \<and> set required_scopes \<subseteq> decoded_scopes d))"
  using assms
  by (auto simp add: decorated_def handle_bypass_verification_def split: option.splits if_splits)

lemma split_read: "split_ws ''read'' = [''read'']"
  by (simp add: split_ws_def is_space_def)

lemma split_bearer: "split_ws ''Bearer abc'' = [''Bearer'', ''abc'']"
  by (simp add: split_ws_def is_space_def)

text \<open>
  At the example gate: required scopes \<^verbatim>\<open>read\<close> and \<^verbatim>\<open>write\<close>, token scope \<^verbatim>\<open>read\<close>. The
  intersection is not empty, \<^verbatim>\<open>allow_any\<close> is true, and the answer is 403.
\<close>

theorem bypass_ignores_allow_any_witness:
  "BYPASS_AUTH_TOKEN_VERIFICATION example_gate \<noteq> 0 \<and> IS_DEBUG example_gate \<noteq> 0
   \<and> bearer_token (Some ''Bearer abc'') = Some ''abc''
   \<and> get_unverified_header example_gate ''abc'' = Some (Some ''k1'')
   \<and> decode_unverified example_gate ''abc''
       = Some \<lparr>claim_scope = Some ''read'', claim_iss = Some ''dummy'',
               claim_aud = Some ''testflight.flightblender.com''\<rparr>
   \<and> decoded_scopes \<lparr>claim_scope = Some ''read'', claim_iss = Some ''dummy'',
               claim_aud = Some ''testflight.flightblender.com''\<rparr> \<inter> set [''read'', ''write''] \<noteq> {}
   \<and> \<not> set [''read'', ''write''] \<subseteq> decoded_scopes \<lparr>claim_scope = Some ''read'', claim_iss = Some ''dummy'',
               claim_aud = Some ''testflight.flightblender.com''\<rparr>
   \<and> decorated example_gate [''read'', ''write''] True (Some ''Bearer abc'')
       = JsonResponse 403 ''You don't have access to this resource''
   \<and> decorated example_gate [''read''] True (Some ''Bearer abc'') = Handler_called"
proof -
  have b: "BYPASS_AUTH_TOKEN_VERIFICATION example_gate \<noteq> 0" and g: "IS_DEBUG example_gate \<noteq> 0"
    by (simp_all add: example_gate_def)
  have tok: "bearer_token (Some ''Bearer abc'') = Some ''abc''"
    by (simp add: bearer_token_def split_bearer)
  have hd: "get_unverified_header example_gate ''abc'' = Some (Some ''k1'')"
    and dec: "decode_unverified example_gate ''abc''
       = Some \<lparr>claim_scope = Some ''read'', claim_iss = Some ''dummy'',
               claim_aud = Some ''testflight.flightblender.com''\<rparr>"
    by (simp_all add: example_gate_def)
  have sc: "decoded_scopes \<lparr>claim_scope = Some ''read'', claim_iss = Some ''dummy'',
               claim_aud = Some ''testflight.flightblender.com''\<rparr> = {''read''}"
    by (simp add: decoded_scopes_def split_read)
  have ok: "decorated example_gate [''read''] True (Some ''Bearer abc'') = Handler_called"
    by (simp add: decorated_def tok hd b g handle_bypass_verification_def dec sc)
  have ns: "\<not> set [''read'', ''write''] \<subseteq> decoded_scopes \<lparr>claim_scope = Some ''read'',
               claim_iss = Some ''dummy'', claim_aud = Some ''testflight.flightblender.com''\<rparr>"
    by (simp add: sc)
  have int: "decoded_scopes \<lparr>claim_scope = Some ''read'', claim_iss = Some ''dummy'',
               claim_aud = Some ''testflight.flightblender.com''\<rparr> \<inter> set [''read'', ''write''] \<noteq> {}"
    by (simp add: sc)
  note gate = bypass_ignores_allow_any [OF b g, of "[''read'', ''write'']" True "Some ''Bearer abc''" "''abc''"
      "Some ''k1''" "\<lparr>claim_scope = Some ''read'', claim_iss = Some ''dummy'',
               claim_aud = Some ''testflight.flightblender.com''\<rparr>"]
  from gate tok hd dec ns
  have forbidden: "decorated example_gate [''read'', ''write''] True (Some ''Bearer abc'')
       = JsonResponse 403 ''You don't have access to this resource''"
    by blast
  from b g tok hd dec int ns forbidden ok show ?thesis by blast
qed

section \<open>JWKS verifier cache (auth\_helper/utils.py)\<close>

text \<open>
  Times and durations are Python floats. A finite float is a real number, and so they
  are typed; comparison, \<^verbatim>\<open>min\<close>, \<^verbatim>\<open>max\<close> and the doubling of a backoff are exact on
  them, while the sum of two floats is rounded: float addition is the parameter
  \<open>float_add\<close> below. Infinite values and nan have no counterpart: the three module
  constants, read from the environment, and the clock are taken to be finite numbers.
\<close>

record jwks_cfg =
  JWKS_CACHE_TTL_S :: real
  JWKS_FETCH_BACKOFF_INITIAL_S :: real
  JWKS_FETCH_BACKOFF_MAX_S :: real

type_synonym py_dict = "(string \<times> json) list"

record 'k jwks_entry =
  jwks :: "py_dict option"
  public_keys :: "json \<rightharpoonup> 'k"
  expires_at :: real
  next_retry_at :: real
  backoff_s :: real

text \<open>
  The module state \<^verbatim>\<open>_JWKS_CACHE\<close> and the number of \<^verbatim>\<open>session.get\<close> calls made so far.
  \<open>session_get n url\<close> is the outcome of the n-th such call: \<open>Inl\<close> when \<^verbatim>\<open>get\<close>,
  \<^verbatim>\<open>raise_for_status\<close> or \<^verbatim>\<open>json\<close> raises (a \<^verbatim>\<open>RequestException\<close> or a \<^verbatim>\<open>ValueError\<close>),
  else the parsed body. \<open>from_jwk\<close> is \<^verbatim>\<open>RSAAlgorithm.from_jwk\<close>, \<open>None\<close> when it raises,
  and \<open>float_add\<close> the sum of two floats.
\<close>

record 'k jwks_world =
  JWKS_CACHE :: "string \<rightharpoonup> 'k jwks_entry"
  session_calls :: nat





definition initial_backoff :: "jwks_cfg \<Rightarrow> real" where
  "initial_backoff cfg = max (JWKS_FETCH_BACKOFF_INITIAL_S cfg) (1 / 10)"

definition new_entry :: "jwks_cfg \<Rightarrow> 'k jwks_entry" where
  "new_entry cfg =
     \<lparr>jwks = None, public_keys = Map.empty, expires_at = 0, next_retry_at = 0,
      backoff_s = initial_backoff cfg\<rparr>"



text \<open>
  Names for the statements: the entry of a URL as a call finds it (created when absent),
  whether the call goes to the network, and whether its fetch fails or succeeds.
\<close>

definition entry_of :: "jwks_cfg \<Rightarrow> 'k jwks_world \<Rightarrow> string \<Rightarrow> 'k jwks_entry" where
  "entry_of cfg w url = (case JWKS_CACHE w url of None \<Rightarrow> new_entry cfg | Some e \<Rightarrow> e)"














section \<open>Properties of the JWKS cache\<close>












lemma entry_of_after:
  "JWKS_CACHE w' = (JWKS_CACHE w)(url \<mapsto> e) \<Longrightarrow> entry_of cfg w' url = e"
  by (simp add: entry_of_def)

















section \<open>Safe HTTP fetcher (common/http\_download.py)\<close>

definition is_json_content_type :: "string \<Rightarrow> bool" where
  "is_json_content_type content_type = contains_str ''json'' (map lower_char content_type)"

record download_settings =
  max_redirects :: int
  max_download_bytes :: int

text \<open>
  A response as the fetcher reads it: the status, the \<^verbatim>\<open>Location\<close> and \<^verbatim>\<open>Content-Type\<close>
  headers (\<open>None\<close> when absent), and the body as the chunks \<^verbatim>\<open>iter_content\<close> yields,
  after which the stream may raise.
\<close>

record fetch_response =
  resp_status :: int
  resp_location :: "string option"
  resp_content_type :: "string option"
  resp_chunks :: "string list"
  resp_stream_raises :: bool

text \<open>
  What the fetcher calls. \<^verbatim>\<open>validate_public_url\<close> with the settings' flags gives its
  verdict, or raises: \<^verbatim>\<open>parsed.port\<close> raises \<^verbatim>\<open>ValueError\<close> on a port that is not a
  number in range (url\_safety.py line 77) and \<^verbatim>\<open>getaddrinfo\<close> can raise other than
  \<^verbatim>\<open>gaierror\<close>. The session answers the GET of hop \<open>n\<close>, \<open>None\<close> when it raises.
  \<^verbatim>\<open>urljoin\<close> joins or raises \<^verbatim>\<open>ValueError\<close>. \<^verbatim>\<open>json.loads\<close> parses the decoded body,
  \<open>None\<close> when it raises.
\<close>

record fetch_io =
  validate_public_url :: "string \<Rightarrow> py_error + bool"
  session_get_at :: "nat \<Rightarrow> string \<Rightarrow> fetch_response option"
  urljoin :: "string \<Rightarrow> string \<Rightarrow> py_error + string"
  json_loads :: "string \<Rightarrow> json option"

text \<open>One constructor for each \<^verbatim>\<open>return None\<close> of \<^verbatim>\<open>fetch_json_url\<close>, in source order.\<close>

datatype reject =
    Blocked_url
  | Fetch_failed
  | Redirect_without_location
  | Too_many_redirects
  | Blocked_redirect
  | Non_200
  | Non_json_content_type
  | Response_too_large
  | Parse_failed
  | Not_an_object
  | Loop_exhausted

text \<open>
  How a run ends: with an exception that leaves \<^verbatim>\<open>fetch_json_url\<close> (the two calls of
  \<^verbatim>\<open>validate_public_url\<close> and the call of \<^verbatim>\<open>urljoin\<close> are outside every \<^verbatim>\<open>try\<close>), at a
  \<^verbatim>\<open>return None\<close>, or with the parsed JSON.
\<close>

datatype fetch_outcome =
    Raised py_error
  | Rejected reject
  | Parsed json

text \<open>The chunk loop: empty chunks are skipped, \<open>None\<close> when the running total exceeds the cap.\<close>

fun read_chunks :: "int \<Rightarrow> string list \<Rightarrow> int \<Rightarrow> string \<Rightarrow> string option" where
  "read_chunks cap [] tot raw = Some raw"
| "read_chunks cap (chunk # rest) tot raw =
     (if chunk = [] then read_chunks cap rest tot raw
      else if tot + int (length chunk) > cap then None
      else read_chunks cap rest (tot + int (length chunk)) (raw @ chunk))"

definition read_body :: "fetch_io \<Rightarrow> download_settings \<Rightarrow> fetch_response \<Rightarrow> fetch_outcome" where
  "read_body io settings response =
     (case read_chunks (max_download_bytes settings) (resp_chunks response) 0 [] of
        None \<Rightarrow> Rejected Response_too_large
      | Some raw \<Rightarrow>
          if resp_stream_raises response then Rejected Parse_failed
          else
            (case json_loads io raw of
               None \<Rightarrow> Rejected Parse_failed
             | Some parsed \<Rightarrow>
                 (case parsed of JObj members \<Rightarrow> Parsed parsed | _ \<Rightarrow> Rejected Not_an_object)))"

text \<open>
  The \<^verbatim>\<open>for hop in range(max_redirects + 1)\<close> loop with \<open>n\<close> iterations left; the list is
  the log of the URLs requested so far.
\<close>

fun fetch_hops ::
  "fetch_io \<Rightarrow> download_settings \<Rightarrow> nat \<Rightarrow> nat \<Rightarrow> string \<Rightarrow> string list
     \<Rightarrow> fetch_outcome \<times> string list" where
  "fetch_hops io settings 0 hop current_url calls = (Rejected Loop_exhausted, calls)"
| "fetch_hops io settings (Suc n) hop current_url calls =
     (case session_get_at io hop current_url of
        None \<Rightarrow> (Rejected Fetch_failed, calls @ [current_url])
      | Some response \<Rightarrow>
          if resp_status response \<in> {301, 302, 303, 307, 308} then
            (case resp_location response of
               None \<Rightarrow> (Rejected Redirect_without_location, calls @ [current_url])
             | Some location \<Rightarrow>
                 if location = [] then (Rejected Redirect_without_location, calls @ [current_url])
                 else if int hop \<ge> max_redirects settings
                 then (Rejected Too_many_redirects, calls @ [current_url])
                 else
                   (case urljoin io current_url location of
                      Inl e \<Rightarrow> (Raised e, calls @ [current_url])
                    | Inr next_url \<Rightarrow>
                        (case validate_public_url io next_url of
                           Inl e \<Rightarrow> (Raised e, calls @ [current_url])
                         | Inr ok \<Rightarrow>
                             if \<not> ok then (Rejected Blocked_redirect, calls @ [current_url])
                             else fetch_hops io settings n (Suc hop) next_url
                                    (calls @ [current_url]))))
          else if resp_status response \<noteq> 200 then (Rejected Non_200, calls @ [current_url])
          else if (case resp_content_type response of
                     None \<Rightarrow> False
                   | Some content_type \<Rightarrow> content_type \<noteq> [] \<and> \<not> is_json_content_type content_type)
          then (Rejected Non_json_content_type, calls @ [current_url])
          else (read_body io settings response, calls @ [current_url]))"

definition fetch_json_url_run ::
  "fetch_io \<Rightarrow> download_settings \<Rightarrow> string \<Rightarrow> fetch_outcome \<times> string list" where
  "fetch_json_url_run io settings url =
     (case validate_public_url io url of
        Inl e \<Rightarrow> (Raised e, [])
      | Inr ok \<Rightarrow>
          if \<not> ok then (Rejected Blocked_url, [])
          else fetch_hops io settings (nat (max_redirects settings + 1)) 0 url [])"

text \<open>
  What the caller sees: the exception, or the value returned, \<^verbatim>\<open>None\<close> for every
  rejection and else the parsed JSON.
\<close>

fun returned :: "fetch_outcome \<Rightarrow> py_error + json option" where
  "returned (Raised e) = Inl e"
| "returned (Rejected r) = Inr None"
| "returned (Parsed parsed) = Inr (Some parsed)"

definition fetch_json_url :: "fetch_io \<Rightarrow> download_settings \<Rightarrow> string \<Rightarrow> py_error + json option" where
  "fetch_json_url io settings url = returned (fst (fetch_json_url_run io settings url))"

text \<open>The rejections that the claim's list names.\<close>

definition listed_reject :: "reject \<Rightarrow> bool" where
  "listed_reject r =
     (r \<in> set [Blocked_url, Blocked_redirect, Redirect_without_location, Too_many_redirects,
                Non_200, Non_json_content_type, Response_too_large, Parse_failed, Not_an_object])"

subsection \<open>The fetch as the specification words it\<close>

text \<open>
  Written from section 4.B and from the claim, not from the code. A response is
  accepted with the object \<open>j\<close> when its status is 200, its \<^verbatim>\<open>Content-Type\<close> is unset or
  contains \<^verbatim>\<open>json\<close>, the length of its body does not exceed the cap, the body is read and
  parsed without an exception, and the JSON root is an object. The length is the total of
  the chunks; a body of length 0 passes any cap, since the cap is tested as chunks arrive.
\<close>

definition is_redirect :: "fetch_response \<Rightarrow> bool" where
  "is_redirect r = (resp_status r \<in> {301, 302, 303, 307, 308})"

definition body_text :: "fetch_response \<Rightarrow> string" where
  "body_text r = concat (resp_chunks r)"

definition exceeds_cap :: "download_settings \<Rightarrow> fetch_response \<Rightarrow> bool" where
  "exceeds_cap settings r =
     (0 < length (body_text r) \<and> max_download_bytes settings < int (length (body_text r)))"

definition content_type_allows :: "fetch_response \<Rightarrow> bool" where
  "content_type_allows r =
     (case resp_content_type r of
        None \<Rightarrow> True
      | Some c \<Rightarrow> c = [] \<or> contains_str ''json'' (map lower_char c))"

definition accepts :: "fetch_io \<Rightarrow> download_settings \<Rightarrow> fetch_response \<Rightarrow> json \<Rightarrow> bool" where
  "accepts io settings r j =
     (resp_status r = 200 \<and> content_type_allows r \<and> \<not> exceeds_cap settings r
      \<and> \<not> resp_stream_raises r \<and> json_loads io (body_text r) = Some j
      \<and> (\<exists>members. j = JObj members))"

text \<open>
  \<open>spec_hop io settings k u res\<close>: the fetch that has followed \<open>k\<close> redirects and stands
  at the validated URL \<open>u\<close> ends with \<open>res\<close>, an exception or a returned value.
\<close>

inductive spec_hop ::
  "fetch_io \<Rightarrow> download_settings \<Rightarrow> nat \<Rightarrow> string \<Rightarrow> py_error + json option \<Rightarrow> bool"
  for io :: fetch_io and settings :: download_settings where
    get_raises:
      "session_get_at io k u = None \<Longrightarrow> spec_hop io settings k u (Inr None)"
  | accepted:
      "session_get_at io k u = Some r \<Longrightarrow> accepts io settings r j \<Longrightarrow>
         spec_hop io settings k u (Inr (Some j))"
  | not_accepted:
      "session_get_at io k u = Some r \<Longrightarrow> \<not> is_redirect r \<Longrightarrow> \<forall>j. \<not> accepts io settings r j \<Longrightarrow>
         spec_hop io settings k u (Inr None)"
  | no_location:
      "session_get_at io k u = Some r \<Longrightarrow> is_redirect r \<Longrightarrow>
         resp_location r = None \<or> resp_location r = Some [] \<Longrightarrow>
         spec_hop io settings k u (Inr None)"
  | too_many_hops:
      "session_get_at io k u = Some r \<Longrightarrow> is_redirect r \<Longrightarrow> resp_location r = Some l \<Longrightarrow> l \<noteq> [] \<Longrightarrow>
         max_redirects settings \<le> int k \<Longrightarrow>
         spec_hop io settings k u (Inr None)"
  | join_raises:
      "session_get_at io k u = Some r \<Longrightarrow> is_redirect r \<Longrightarrow> resp_location r = Some l \<Longrightarrow> l \<noteq> [] \<Longrightarrow>
         int k < max_redirects settings \<Longrightarrow> urljoin io u l = Inl e \<Longrightarrow>
         spec_hop io settings k u (Inl e)"
  | validation_raises:
      "session_get_at io k u = Some r \<Longrightarrow> is_redirect r \<Longrightarrow> resp_location r = Some l \<Longrightarrow> l \<noteq> [] \<Longrightarrow>
         int k < max_redirects settings \<Longrightarrow> urljoin io u l = Inr next_url \<Longrightarrow>
         validate_public_url io next_url = Inl e \<Longrightarrow>
         spec_hop io settings k u (Inl e)"
  | target_blocked:
      "session_get_at io k u = Some r \<Longrightarrow> is_redirect r \<Longrightarrow> resp_location r = Some l \<Longrightarrow> l \<noteq> [] \<Longrightarrow>
         int k < max_redirects settings \<Longrightarrow> urljoin io u l = Inr next_url \<Longrightarrow>
         validate_public_url io next_url = Inr False \<Longrightarrow>
         spec_hop io settings k u (Inr None)"
  | follow:
      "session_get_at io k u = Some r \<Longrightarrow> is_redirect r \<Longrightarrow> resp_location r = Some l \<Longrightarrow> l \<noteq> [] \<Longrightarrow>
         int k < max_redirects settings \<Longrightarrow> urljoin io u l = Inr next_url \<Longrightarrow>
         validate_public_url io next_url = Inr True \<Longrightarrow>
         spec_hop io settings (Suc k) next_url res \<Longrightarrow>
         spec_hop io settings k u res"

definition spec_fetch_json_url ::
  "fetch_io \<Rightarrow> download_settings \<Rightarrow> string \<Rightarrow> py_error + json option \<Rightarrow> bool" where
  "spec_fetch_json_url io settings url res =
     (case validate_public_url io url of
        Inl e \<Rightarrow> res = Inl e
      | Inr ok \<Rightarrow>
          if \<not> ok then res = Inr None
          else if max_redirects settings < 0 then res = Inr None
          else spec_hop io settings 0 url res)"

text \<open>
  Concrete runs: a session that answers hop 0 with a 302 to \<^verbatim>\<open>/final\<close> and every later
  hop with a 200 carrying a JSON object (the test's scenario), a session whose GET always
  raises, a validator that raises on a port out of range, the default settings, and settings
  with \<open>max_redirects = -1\<close>.
\<close>

definition default_settings :: download_settings where
  "default_settings = \<lparr>max_redirects = 3, max_download_bytes = 1048576\<rparr>"

definition redirecting_io :: fetch_io where
  "redirecting_io =
     \<lparr>validate_public_url = (\<lambda>u. Inr (u \<noteq> ''https://127.0.0.1/evil'')),
      session_get_at = (\<lambda>n u.
        if n = 0
        then Some \<lparr>resp_status = 302, resp_location = Some ''/final'', resp_content_type = None,
                   resp_chunks = [], resp_stream_raises = False\<rparr>
        else Some \<lparr>resp_status = 200, resp_location = None,
                   resp_content_type = Some ''application/jwk-set+json'',
                   resp_chunks = [''{}''], resp_stream_raises = False\<rparr>),
      urljoin = (\<lambda>base l. Inr (''https://93.184.216.34'' @ l)),
      json_loads = (\<lambda>raw. if raw = ''{}'' then Some (JObj []) else None)\<rparr>"

definition unreachable_io :: fetch_io where
  "unreachable_io =
     \<lparr>validate_public_url = (\<lambda>u. Inr True),
      session_get_at = (\<lambda>n u. None),
      urljoin = (\<lambda>base l. Inr l),
      json_loads = (\<lambda>raw. None)\<rparr>"

definition bad_port_io :: fetch_io where
  "bad_port_io =
     \<lparr>validate_public_url = (\<lambda>u.
        if u = ''https://93.184.216.34:99999/data.json''
        then Inl (ValueError ''Port out of range 0-65535'') else Inr True),
      session_get_at = (\<lambda>n u. None),
      urljoin = (\<lambda>base l. Inr l),
      json_loads = (\<lambda>raw. None)\<rparr>"

definition no_hops_settings :: download_settings where
  "no_hops_settings = \<lparr>max_redirects = - 1, max_download_bytes = 1048576\<rparr>"

section \<open>Properties of the fetcher\<close>

lemma read_chunks_total:
  "read_chunks cap cs tot raw
     = (if 0 < length (concat cs) \<and> cap < tot + int (length (concat cs)) then None
        else Some (raw @ concat cs))"
proof (induction cs arbitrary: tot raw)
  case Nil
  then show ?case by simp
next
  case (Cons chunk rest)
  show ?case
  proof (cases "chunk = []")
    case True
    then show ?thesis using Cons.IH [of tot raw] by simp
  next
    case False
    then have pos: "0 < length chunk" by simp
    show ?thesis
    proof (cases "tot + int (length chunk) > cap")
      case True
      with False pos show ?thesis by simp
    next
      case le: False
      show ?thesis
      proof (cases "concat rest = []")
        case True
        with Cons.IH [of "tot + int (length chunk)" "raw @ chunk"]
        have ih: "read_chunks cap rest (tot + int (length chunk)) (raw @ chunk) = Some (raw @ chunk)"
          by simp
        from True have c: "concat (chunk # rest) = chunk" by simp
        show ?thesis unfolding c using le False ih by simp
      next
        case ne: False
        then have "0 < length (concat rest)" by simp
        with le False pos Cons.IH [of "tot + int (length chunk)" "raw @ chunk"] show ?thesis
          by (simp add: algebra_simps)
      qed
    qed
  qed
qed

lemma read_body_returned:
  "returned (read_body io settings r)
     = (if \<not> exceeds_cap settings r \<and> \<not> resp_stream_raises r
           \<and> (\<exists>members. json_loads io (body_text r) = Some (JObj members))
        then Inr (json_loads io (body_text r)) else Inr None)"
  by (auto simp: read_body_def read_chunks_total exceeds_cap_def body_text_def
      split: option.splits json.splits)

text \<open>The part of one iteration after the redirect branch, as a function of the response.\<close>

lemma final_returned:
  assumes "\<not> is_redirect r"
  shows "returned
           (if resp_status r \<noteq> 200 then Rejected Non_200
            else if (case resp_content_type r of
                       None \<Rightarrow> False
                     | Some content_type \<Rightarrow> content_type \<noteq> [] \<and> \<not> is_json_content_type content_type)
            then Rejected Non_json_content_type
            else read_body io settings r)
         = (if \<exists>j. accepts io settings r j then Inr (json_loads io (body_text r)) else Inr None)"
  by (auto simp: read_body_returned accepts_def content_type_allows_def is_json_content_type_def
      split: option.splits)

lemma hop_not_redirect:
  assumes g: "session_get_at io hop u = Some r" and nr: "\<not> is_redirect r"
  shows "returned (fst (fetch_hops io settings (Suc n) hop u calls))
         = (if \<exists>j. accepts io settings r j then Inr (json_loads io (body_text r)) else Inr None)"
proof -
  from nr have "resp_status r \<notin> {301, 302, 303, 307, 308}"
    by (simp add: is_redirect_def)
  with g have "fst (fetch_hops io settings (Suc n) hop u calls)
         = (if resp_status r \<noteq> 200 then Rejected Non_200
            else if (case resp_content_type r of
                       None \<Rightarrow> False
                     | Some content_type \<Rightarrow> content_type \<noteq> [] \<and> \<not> is_json_content_type content_type)
            then Rejected Non_json_content_type
            else read_body io settings r)"
    by simp
  then show ?thesis using final_returned [OF nr, of io settings] by simp
qed

lemma accepts_not_redirect: "accepts io settings r j \<Longrightarrow> \<not> is_redirect r"
  by (simp add: accepts_def is_redirect_def)

lemma accepts_value: "accepts io settings r j \<Longrightarrow> json_loads io (body_text r) = Some j"
  by (simp add: accepts_def)

lemma hop_redirect_no_location:
  assumes "session_get_at io hop u = Some r" and "is_redirect r"
    and "resp_location r = None \<or> resp_location r = Some []"
  shows "fst (fetch_hops io settings (Suc n) hop u calls) = Rejected Redirect_without_location"
  using assms by (auto simp: is_redirect_def)

lemma hop_redirect_too_many:
  assumes "session_get_at io hop u = Some r" and "is_redirect r"
    and "resp_location r = Some l" and "l \<noteq> []" and "max_redirects settings \<le> int hop"
  shows "fst (fetch_hops io settings (Suc n) hop u calls) = Rejected Too_many_redirects"
  using assms by (simp add: is_redirect_def)

lemma hop_redirect_next:
  assumes "session_get_at io hop u = Some r" and "is_redirect r"
    and "resp_location r = Some l" and "l \<noteq> []" and "int hop < max_redirects settings"
  shows "fetch_hops io settings (Suc n) hop u calls
         = (case urljoin io u l of
              Inl e \<Rightarrow> (Raised e, calls @ [u])
            | Inr next_url \<Rightarrow>
                (case validate_public_url io next_url of
                   Inl e \<Rightarrow> (Raised e, calls @ [u])
                 | Inr ok \<Rightarrow>
                     if \<not> ok then (Rejected Blocked_redirect, calls @ [u])
                     else fetch_hops io settings n (Suc hop) next_url (calls @ [u])))"
  using assms by (simp add: is_redirect_def)

text \<open>The code does what the specification words: each run is a derivation.\<close>

lemma code_meets_spec:
  "int hop + int n = max_redirects settings + 1 \<Longrightarrow> 0 < n \<Longrightarrow>
     spec_hop io settings hop u (returned (fst (fetch_hops io settings n hop u calls)))"
proof (induction n arbitrary: hop u calls)
  case 0
  then show ?case by simp
next
  case (Suc n)
  show ?case
  proof (cases "session_get_at io hop u")
    case None
    then have "returned (fst (fetch_hops io settings (Suc n) hop u calls)) = Inr None"
      by simp
    with None show ?thesis by (simp add: spec_hop.get_raises)
  next
    case (Some r)
    show ?thesis
    proof (cases "is_redirect r")
      case False
      show ?thesis
      proof (cases "\<exists>j. accepts io settings r j")
        case True
        then obtain j where j: "accepts io settings r j" by blast
        with hop_not_redirect [OF Some False, where settings = settings and n = n and calls = calls] accepts_value [OF j]
        have "returned (fst (fetch_hops io settings (Suc n) hop u calls)) = Inr (Some j)"
          by auto
        with spec_hop.accepted [OF Some j] show ?thesis by simp
      next
        case na: False
        with hop_not_redirect [OF Some False, where settings = settings and n = n and calls = calls]
        have "returned (fst (fetch_hops io settings (Suc n) hop u calls)) = Inr None"
          by simp
        with spec_hop.not_accepted [OF Some False] na show ?thesis by simp
      qed
    next
      case True
      show ?thesis
      proof (cases "resp_location r = None \<or> resp_location r = Some []")
        case nl: True
        from hop_redirect_no_location [OF Some True nl, where settings = settings and n = n and calls = calls]
          spec_hop.no_location [OF Some True nl, of settings]
        show ?thesis by simp
      next
        case hl: False
        then obtain l where l: "resp_location r = Some l" "l \<noteq> []" by auto
        show ?thesis
        proof (cases "max_redirects settings \<le> int hop")
          case tm: True
          from hop_redirect_too_many [OF Some True l tm, where n = n and calls = calls]
            spec_hop.too_many_hops [OF Some True l tm]
          show ?thesis by simp
        next
          case fm: False
          then have lt: "int hop < max_redirects settings" by simp
          note step = hop_redirect_next [OF Some True l lt, where n = n and calls = calls]
          show ?thesis
          proof (cases "urljoin io u l")
            case (Inl e)
            with step spec_hop.join_raises [OF Some True l lt Inl] show ?thesis by simp
          next
            case (Inr next_url)
            show ?thesis
            proof (cases "validate_public_url io next_url")
              case ve: (Inl e)
              with step Inr spec_hop.validation_raises [OF Some True l lt Inr ve]
              show ?thesis by simp
            next
              case vr: (Inr ok)
              show ?thesis
              proof (cases ok)
                case False
                with vr have vf: "validate_public_url io next_url = Inr False" by simp
                with step Inr spec_hop.target_blocked [OF Some True l lt Inr vf]
                show ?thesis by simp
              next
                case ok: True
                with vr have vt: "validate_public_url io next_url = Inr True" by simp
                from Suc.prems lt have a: "int (Suc hop) + int n = max_redirects settings + 1"
                  and b: "0 < n" by simp_all
                from Suc.IH [OF a b, of next_url "calls @ [u]"]
                have "spec_hop io settings (Suc hop) next_url
                        (returned (fst (fetch_hops io settings n (Suc hop) next_url (calls @ [u]))))" .
                from spec_hop.follow [OF Some True l lt Inr vt this] step Inr vt
                show ?thesis by simp
              qed
            qed
          qed
        qed
      qed
    qed
  qed
qed

text \<open>The specification admits no other result: a derivation determines the run.\<close>

lemma spec_meets_code:
  "spec_hop io settings k u res \<Longrightarrow> int k + int n = max_redirects settings + 1 \<Longrightarrow> 0 < n \<Longrightarrow>
     returned (fst (fetch_hops io settings n k u calls)) = res"
proof (induction arbitrary: n calls rule: spec_hop.induct)
  case (get_raises k u)
  then obtain m where "n = Suc m" by (cases n) simp_all
  with get_raises show ?case by simp
next
  case (accepted k u r j)
  then obtain m where m: "n = Suc m" by (cases n) simp_all
  from accepted(2) have "\<exists>j. accepts io settings r j" by blast
  with hop_not_redirect [OF accepted(1) accepts_not_redirect [OF accepted(2)], where n = m and calls = calls]
    accepts_value [OF accepted(2)] m
  show ?case by simp
next
  case (not_accepted k u r)
  then obtain m where m: "n = Suc m" by (cases n) simp_all
  from not_accepted(3) have "\<not> (\<exists>j. accepts io settings r j)" by blast
  with hop_not_redirect [OF not_accepted(1,2), where settings = settings and n = m and calls = calls] m
  show ?case by simp
next
  case (no_location k u r)
  then obtain m where m: "n = Suc m" by (cases n) simp_all
  from hop_redirect_no_location [OF no_location(1,2,3), where settings = settings and n = m and calls = calls] m
  show ?case by simp
next
  case (too_many_hops k u r l)
  then obtain m where m: "n = Suc m" by (cases n) simp_all
  from hop_redirect_too_many [OF too_many_hops(1,2,3,4,5), where n = m and calls = calls] m
  show ?case by simp
next
  case (join_raises k u r l e)
  then obtain m where m: "n = Suc m" by (cases n) simp_all
  from hop_redirect_next [OF join_raises(1,2,3,4,5), where n = m and calls = calls] join_raises(6) m
  show ?case by simp
next
  case (validation_raises k u r l next_url e)
  then obtain m where m: "n = Suc m" by (cases n) simp_all
  from hop_redirect_next [OF validation_raises(1,2,3,4,5), where n = m and calls = calls] validation_raises(6,7) m
  show ?case by simp
next
  case (target_blocked k u r l next_url)
  then obtain m where m: "n = Suc m" by (cases n) simp_all
  from hop_redirect_next [OF target_blocked(1,2,3,4,5), where n = m and calls = calls] target_blocked(6,7) m
  show ?case by simp
next
  case (follow k u r l next_url res)
  from follow.prems obtain m where m: "n = Suc m" by (cases n) simp_all
  from follow.prems follow.hyps(5) m have a: "int (Suc k) + int m = max_redirects settings + 1"
    and b: "0 < m" by simp_all
  from follow.IH [OF a b, of "calls @ [u]"]
    hop_redirect_next [OF follow.hyps(1,2,3,4,5), where n = m and calls = calls] follow.hyps(6,7) m
  show ?case by simp
qed

lemma fetch_json_url_refines:
  "(fetch_json_url io settings url = res) = spec_fetch_json_url io settings url res"
proof (cases "validate_public_url io url")
  case (Inl e)
  then show ?thesis
    by (auto simp: fetch_json_url_def fetch_json_url_run_def spec_fetch_json_url_def)
next
  case (Inr ok)
  show ?thesis
  proof (cases "ok \<and> \<not> max_redirects settings < 0")
    case False
    with Inr show ?thesis
      by (auto simp: fetch_json_url_def fetch_json_url_run_def spec_fetch_json_url_def)
  next
    case True
    then have a: "int 0 + int (nat (max_redirects settings + 1)) = max_redirects settings + 1"
      and b: "0 < nat (max_redirects settings + 1)" by simp_all
    from True Inr have run: "fetch_json_url io settings url
        = returned (fst (fetch_hops io settings (nat (max_redirects settings + 1)) 0 url []))"
      by (simp add: fetch_json_url_def fetch_json_url_run_def)
    from True Inr have spec: "spec_fetch_json_url io settings url res = spec_hop io settings 0 url res"
      by (simp add: spec_fetch_json_url_def)
    show ?thesis
      unfolding run spec
      using code_meets_spec [OF a b, of io url "[]"] spec_meets_code [OF _ a b, of io url res "[]"]
      by auto
  qed
qed

lemma read_body_object: "read_body io settings response = Parsed j \<Longrightarrow> \<exists>members. j = JObj members"
  by (auto simp: read_body_def split: option.splits if_splits json.splits)

lemma fetch_hops_object:
  "fst (fetch_hops io settings n hop u calls) = Parsed j \<Longrightarrow> \<exists>members. j = JObj members"
proof (induction n arbitrary: hop u calls)
  case 0
  then show ?case by simp
next
  case (Suc n)
  then show ?case
    by (auto split: option.splits if_splits sum.splits dest: read_body_object)
qed

lemma fetch_hops_validated:
  "validate_public_url io u = Inr True \<Longrightarrow> \<forall>x \<in> set calls. validate_public_url io x = Inr True \<Longrightarrow>
     \<forall>x \<in> set (snd (fetch_hops io settings n hop u calls)). validate_public_url io x = Inr True"
proof (induction n arbitrary: hop u calls)
  case 0
  then show ?case by simp
next
  case (Suc n)
  have log: "\<forall>x \<in> set (calls @ [u]). validate_public_url io x = Inr True"
    using Suc.prems by simp
  show ?case
  proof (cases "\<exists>r l next_url. session_get_at io hop u = Some r \<and> is_redirect r
                  \<and> resp_location r = Some l \<and> l \<noteq> [] \<and> int hop < max_redirects settings
                  \<and> urljoin io u l = Inr next_url \<and> validate_public_url io next_url = Inr True")
    case True
    then obtain r l next_url where f: "session_get_at io hop u = Some r" "is_redirect r"
      "resp_location r = Some l" "l \<noteq> []" "int hop < max_redirects settings"
      and j: "urljoin io u l = Inr next_url" and v: "validate_public_url io next_url = Inr True"
      by blast
    from Suc.IH [OF v log, of "Suc hop"] hop_redirect_next [OF f, where n = n and calls = calls] j v
    show ?thesis by simp
  next
    case False
    have "snd (fetch_hops io settings (Suc n) hop u calls) = calls @ [u]"
      using False
      by (auto simp: is_redirect_def split: option.splits if_splits sum.splits)
    with log show ?thesis by simp
  qed
qed

lemma fetch_hops_length:
  "length (snd (fetch_hops io settings n hop u calls)) \<le> length calls + n"
proof (induction n arbitrary: hop u calls)
  case 0
  then show ?case by simp
next
  case (Suc n)
  have "length (snd (fetch_hops io settings n (Suc hop) v (calls @ [u]))) \<le> length calls + Suc n"
    for v using Suc.IH [of "Suc hop" v "calls @ [u]"] by simp
  then show ?case
    by (auto split: option.splits if_splits sum.splits)
qed

text \<open>
  C2, as the code has it. For every session, settings and URL:
  (1) \<^verbatim>\<open>fetch_json_url\<close> ends with \<open>res\<close> exactly when the fetch worded in the previous
  section ends with \<open>res\<close>. So it returns \<^verbatim>\<open>None\<close> exactly when the initial URL or a
  redirect target fails validation, a GET raises, a redirect has no \<^verbatim>\<open>Location\<close>, a redirect
  arrives after \<open>max_redirects\<close> hops, \<open>max_redirects\<close> is negative, or the final response is
  not accepted: its status is not 200, its set \<^verbatim>\<open>Content-Type\<close> does not contain \<^verbatim>\<open>json\<close>,
  its body is longer than \<open>max_download_bytes\<close>, reading or parsing it raises, or the root
  is not an object. It returns the object of an accepted response, and it lets the exception
  through when \<^verbatim>\<open>validate_public_url\<close> or \<^verbatim>\<open>urljoin\<close> raises.
  (2) A result other than \<^verbatim>\<open>None\<close> is a JSON object.
  (3) Every URL that was requested, the initial one and every redirect target, had passed
  validation before its request.
  (4) At most \<open>max_redirects + 1\<close> requests are made, so at most \<open>max_redirects\<close> redirects
  are followed.
\<close>

theorem fetch_json_url_rejections:
  "(fetch_json_url io settings url = res) = spec_fetch_json_url io settings url res
   \<and> (\<forall>j. fetch_json_url io settings url = Inr (Some j) \<longrightarrow> (\<exists>members. j = JObj members))
   \<and> (\<forall>u \<in> set (snd (fetch_json_url_run io settings url)). validate_public_url io u = Inr True)
   \<and> int (length (snd (fetch_json_url_run io settings url))) \<le> max 0 (max_redirects settings + 1)"
proof -
  let ?run = "fetch_json_url_run io settings url"
  have obj: "\<exists>members. j = JObj members" if "fetch_json_url io settings url = Inr (Some j)" for j
  proof -
    from that have "fst ?run = Parsed j"
      by (cases "fst ?run") (simp_all add: fetch_json_url_def)
    then show ?thesis
      by (auto simp: fetch_json_url_run_def split: sum.splits if_splits dest: fetch_hops_object)
  qed
  have valid: "\<forall>u \<in> set (snd ?run). validate_public_url io u = Inr True"
  proof (cases "validate_public_url io url = Inr True")
    case True
    with fetch_hops_validated [of io url "[]" settings] show ?thesis
      by (simp add: fetch_json_url_run_def)
  next
    case False
    then show ?thesis by (auto simp: fetch_json_url_run_def split: sum.splits)
  qed
  have len: "int (length (snd ?run)) \<le> max 0 (max_redirects settings + 1)"
    using fetch_hops_length [of io settings "nat (max_redirects settings + 1)" 0 url "[]"]
    by (auto simp: fetch_json_url_run_def split: sum.splits)
  from fetch_json_url_refines [of io settings url res] obj valid len show ?thesis by blast
qed

lemmas fetch_run_defs =
  fetch_json_url_def fetch_json_url_run_def read_body_def is_json_content_type_def lower_char_def
  default_settings_def redirecting_io_def unreachable_io_def bad_port_io_def listed_reject_def

text \<open>
  C2 as written fails: the URL passes validation and the GET raises (a timeout, a refused
  connection). The result is \<^verbatim>\<open>None\<close>, by the \<^verbatim>\<open>except\<close> clause of lines 53 to 55, and
  none of the steps the claim lists has rejected: there is no response to reject.
\<close>

theorem fetch_json_url_none_on_request_exception:
  "validate_public_url unreachable_io ''https://93.184.216.34/data.json'' = Inr True
   \<and> session_get_at unreachable_io 0 ''https://93.184.216.34/data.json'' = None
   \<and> fetch_json_url unreachable_io default_settings ''https://93.184.216.34/data.json'' = Inr None
   \<and> fetch_json_url_run unreachable_io default_settings ''https://93.184.216.34/data.json''
       = (Rejected Fetch_failed, [''https://93.184.216.34/data.json''])
   \<and> \<not> listed_reject Fetch_failed"
  by (simp add: fetch_run_defs eval_nat_numeral)

lemma redirect_run:
  "fetch_json_url_run redirecting_io default_settings ''https://93.184.216.34/redirect''
     = (Parsed (JObj []), [''https://93.184.216.34/redirect'', ''https://93.184.216.34/final''])"
  by (simp add: fetch_run_defs eval_nat_numeral)

lemma unreachable_run:
  "fetch_json_url_run unreachable_io default_settings ''https://93.184.216.34/data.json''
     = (Rejected Fetch_failed, [''https://93.184.216.34/data.json''])"
  by (simp add: fetch_run_defs eval_nat_numeral)

lemma no_hops_run:
  "fetch_json_url_run redirecting_io no_hops_settings ''https://93.184.216.34/redirect''
     = (Rejected Loop_exhausted, [])"
  by (simp add: fetch_run_defs no_hops_settings_def)

lemma bad_port_run:
  "fetch_json_url_run bad_port_io default_settings ''https://93.184.216.34:99999/data.json''
     = (Raised (ValueError ''Port out of range 0-65535''), [])"
  by (simp add: fetch_run_defs)

text \<open>
  C2's theorem in four runs: the redirect that is followed to a JSON object, the GET that
  raises, the loop without iterations, and the validation that raises.
\<close>

theorem fetch_json_url_rejections_witness:
  "fetch_json_url redirecting_io default_settings ''https://93.184.216.34/redirect''
     = Inr (Some (JObj []))
   \<and> spec_fetch_json_url redirecting_io default_settings ''https://93.184.216.34/redirect''
       (Inr (Some (JObj [])))
   \<and> snd (fetch_json_url_run redirecting_io default_settings ''https://93.184.216.34/redirect'')
       = [''https://93.184.216.34/redirect'', ''https://93.184.216.34/final'']
   \<and> validate_public_url redirecting_io ''https://93.184.216.34/redirect'' = Inr True
   \<and> validate_public_url redirecting_io ''https://93.184.216.34/final'' = Inr True
   \<and> spec_fetch_json_url unreachable_io default_settings ''https://93.184.216.34/data.json''
       (Inr None)
   \<and> spec_fetch_json_url redirecting_io no_hops_settings ''https://93.184.216.34/redirect''
       (Inr None)
   \<and> spec_fetch_json_url bad_port_io default_settings ''https://93.184.216.34:99999/data.json''
       (Inl (ValueError ''Port out of range 0-65535''))"
proof -
  note a = fetch_json_url_rejections [of redirecting_io default_settings
      "''https://93.184.216.34/redirect''" "Inr (Some (JObj []))"]
  note b = fetch_json_url_rejections [of unreachable_io default_settings
      "''https://93.184.216.34/data.json''" "Inr None"]
  note c = fetch_json_url_rejections [of redirecting_io no_hops_settings
      "''https://93.184.216.34/redirect''" "Inr None"]
  note d = fetch_json_url_rejections [of bad_port_io default_settings
      "''https://93.184.216.34:99999/data.json''" "Inl (ValueError ''Port out of range 0-65535'')"]
  have a1: "fetch_json_url redirecting_io default_settings ''https://93.184.216.34/redirect''
      = Inr (Some (JObj []))"
    by (simp add: fetch_json_url_def redirect_run)
  with a have a2: "spec_fetch_json_url redirecting_io default_settings
      ''https://93.184.216.34/redirect'' (Inr (Some (JObj [])))"
    by blast
  from a have "\<forall>u\<in>set (snd (fetch_json_url_run redirecting_io default_settings
      ''https://93.184.216.34/redirect'')). validate_public_url redirecting_io u = Inr True"
    by blast
  then have a3: "validate_public_url redirecting_io ''https://93.184.216.34/redirect'' = Inr True"
    and a4: "validate_public_url redirecting_io ''https://93.184.216.34/final'' = Inr True"
    by (simp_all add: redirect_run)
  have "fetch_json_url unreachable_io default_settings ''https://93.184.216.34/data.json'' = Inr None"
    by (simp add: fetch_json_url_def unreachable_run)
  with b have b1: "spec_fetch_json_url unreachable_io default_settings
      ''https://93.184.216.34/data.json'' (Inr None)"
    by blast
  have "fetch_json_url redirecting_io no_hops_settings ''https://93.184.216.34/redirect'' = Inr None"
    by (simp add: fetch_json_url_def no_hops_run)
  with c have c1: "spec_fetch_json_url redirecting_io no_hops_settings
      ''https://93.184.216.34/redirect'' (Inr None)"
    by blast
  have "fetch_json_url bad_port_io default_settings ''https://93.184.216.34:99999/data.json''
      = Inl (ValueError ''Port out of range 0-65535'')"
    by (simp add: fetch_json_url_def bad_port_run)
  with d have d1: "spec_fetch_json_url bad_port_io default_settings
      ''https://93.184.216.34:99999/data.json'' (Inl (ValueError ''Port out of range 0-65535''))"
    by blast
  from a1 a2 a3 a4 b1 c1 d1 show ?thesis by (simp add: redirect_run)
qed

section \<open>RID cluster builder (rid\_operations/dss\_rid\_helper.py)\<close>

text \<open>
  Coordinates, lengths and areas are Python floats, modelled as real numbers. The
  geodesic computations of \<^verbatim>\<open>pyproj\<close> and the two constants of \<^verbatim>\<open>uas_standards\<close> are
  not among the sources; they are parameters: \<open>geometry_length p q\<close> is
  \<^verbatim>\<open>geod.geometry_length(LineString([p, q]))\<close> and \<open>geometry_area\<close> the area that
  \<^verbatim>\<open>geod.geometry_area_perimeter\<close> returns for a polygon.
\<close>

type_synonym point = "real \<times> real"

record geo_ctx =
  geometry_length :: "point \<Rightarrow> point \<Rightarrow> real"
  geometry_area :: "point list \<Rightarrow> real"
  NetMinObfuscationDistanceM :: real
  NetMinClusterSizePercent :: real

record Cluster =
  x_min :: real
  x_max :: real
  y_min :: real
  y_max :: real
  points :: "point list"

record ClusterDetail =
  corners :: "point list"
  area_sqm :: real
  number_of_flights :: nat

record RIDFlight =
  most_recent_lat :: real
  most_recent_lng :: real

text \<open>
  \<^verbatim>\<open>extend_cluster\<close>. Every one of the three steps builds its rectangle from the
  arguments \<open>min_x\<close>, \<open>min_y\<close>, \<open>max_x\<close>, \<open>max_y\<close> and from the width, height and area
  measured once at the start, and assigns it to \<^verbatim>\<open>cluster\<close>. The division of the third
  step raises on a zero area, the square root on a negative quotient.
\<close>

definition extend_cluster ::
  "geo_ctx \<Rightarrow> real \<Rightarrow> real \<Rightarrow> real \<Rightarrow> real \<Rightarrow> real \<Rightarrow> point list \<Rightarrow> py_error + Cluster" where
  "extend_cluster ctx view_area_sqm min_x min_y max_x max_y all_positions =
     (let cluster0 = \<lparr>x_min = min_x, x_max = max_x, y_min = min_y, y_max = max_y,
                       points = all_positions\<rparr>;
          cluster_width = geometry_length ctx (min_x, min_y) (max_x, min_y);
          cluster_height = geometry_length ctx (min_x, min_y) (min_x, max_y);
          cluster_area = cluster_width * cluster_height;
          cluster1 =
            (if cluster_width < 2 * NetMinObfuscationDistanceM ctx
             then (let delta = NetMinObfuscationDistanceM ctx - cluster_width / 2
                   in \<lparr>x_min = min_x - delta, x_max = max_x + delta, y_min = min_y, y_max = max_y,
                        points = all_positions\<rparr>)
             else cluster0);
          cluster2 =
            (if cluster_height < 2 * NetMinObfuscationDistanceM ctx
             then (let delta = NetMinObfuscationDistanceM ctx - cluster_height / 2
                   in \<lparr>x_min = min_x, x_max = max_x, y_min = min_y - delta, y_max = max_y + delta,
                        points = all_positions\<rparr>)
             else cluster1);
          min_cluster_area = view_area_sqm * NetMinClusterSizePercent ctx / 100
      in if cluster_area < min_cluster_area
         then (if cluster_area = 0 then Inl (ZeroDivisionError ''float division by zero'')
               else if min_cluster_area / cluster_area < 0 then Inl (ValueError ''math domain error'')
               else (let scale = sqrt (min_cluster_area / cluster_area) / 2
                     in Inr \<lparr>x_min = min_x - scale * cluster_width,
                             x_max = max_x + scale * cluster_width,
                             y_min = min_y - scale * cluster_height,
                             y_max = max_y + scale * cluster_height,
                             points = all_positions\<rparr>))
         else Inr cluster2)"

text \<open>
  \<^verbatim>\<open>view_box.bounds\<close> of a polygon given by its vertices; an empty polygon has the empty
  tuple as bounds, and indexing it raises.
\<close>

fun bounds_from :: "real \<times> real \<times> real \<times> real \<Rightarrow> point list \<Rightarrow> real \<times> real \<times> real \<times> real" where
  "bounds_from b [] = b"
| "bounds_from (min_x, min_y, max_x, max_y) ((x, y) # rest) =
     bounds_from (min min_x x, min min_y y, max max_x x, max max_y y) rest"

definition polygon_bounds :: "point list \<Rightarrow> (real \<times> real \<times> real \<times> real) option" where
  "polygon_bounds vs = (case vs of [] \<Rightarrow> None | (x, y) # rest \<Rightarrow> Some (bounds_from (x, y, x, y) rest))"

definition generate_cluster_details ::
  "geo_ctx \<Rightarrow> RIDFlight list \<Rightarrow> point list \<Rightarrow> py_error + ClusterDetail list" where
  "generate_cluster_details ctx rid_flights view_box =
     (case polygon_bounds view_box of
        None \<Rightarrow> Inl (IndexError ''tuple index out of range'')
      | Some (view_min_x, view_min_y, view_max_x, view_max_y) \<Rightarrow>
          (let all_positions =
                 [(view_min_x, view_min_y), (view_max_x, view_max_y)]
                 @ map (\<lambda>f. (most_recent_lat f, most_recent_lng f)) rid_flights;
               (min_x, min_y, max_x, max_y) =
                 bounds_from (view_min_x, view_min_y, view_min_x, view_min_y) (tl all_positions);
               bounding_box_area_sq_meters = geometry_area ctx view_box
           in case extend_cluster ctx bounding_box_area_sq_meters min_x min_y max_x max_y all_positions of
                Inl e \<Rightarrow> Inl e
              | Inr extended_cluster \<Rightarrow>
                  Inr [\<lparr>corners = [(y_min extended_cluster, x_min extended_cluster),
                                   (y_max extended_cluster, x_max extended_cluster)],
                        area_sqm = bounding_box_area_sq_meters,
                        number_of_flights = length rid_flights\<rparr>]))"

text \<open>The width and height of a rectangle as \<^verbatim>\<open>extend_cluster\<close> measures them.\<close>

definition width_of :: "geo_ctx \<Rightarrow> Cluster \<Rightarrow> real" where
  "width_of ctx c = geometry_length ctx (x_min c, y_min c) (x_max c, y_min c)"

definition height_of :: "geo_ctx \<Rightarrow> Cluster \<Rightarrow> real" where
  "height_of ctx c = geometry_length ctx (x_min c, y_min c) (x_min c, y_max c)"

text \<open>
  A stand-in for the geodesic functions, used in the closed statements only: 111 km to
  the degree along either axis. The view is a square of a thousandth of a degree, 111 m
  wide and high; the two constants have the values of F3411-22a, 300 m and 15 percent.
\<close>

definition flat_ctx :: geo_ctx where
  "flat_ctx =
     \<lparr>geometry_length = (\<lambda>(x1, y1) (x2, y2). 111000 * (\<bar>x2 - x1\<bar> + \<bar>y2 - y1\<bar>)),
      geometry_area = (\<lambda>vs. case polygon_bounds vs of
                              None \<Rightarrow> 0
                            | Some (a, b, c, d) \<Rightarrow> 111000 * (c - a) * (111000 * (d - b))),
      NetMinObfuscationDistanceM = 300,
      NetMinClusterSizePercent = 15\<rparr>"

definition small_view :: "point list" where
  "small_view = [(0, 0), (1 / 1000, 0), (1 / 1000, 1 / 1000), (0, 1 / 1000)]"

section \<open>Properties of the cluster builder\<close>

text \<open>
  C1. For every length function: when the measured width and the measured height are
  both below \<open>2 * NetMinObfuscationDistanceM\<close> and the area step does not fire,
  \<^verbatim>\<open>extend_cluster\<close> returns the rectangle of the height step alone. That step is built
  from the \<open>min_x\<close> and \<open>max_x\<close> the function was called with, so the rectangle of the
  width step is overwritten and the x-extent returned is the one that was too narrow:
  the steps do not work on each other's results, and the width floor is not reached.
\<close>

theorem extend_cluster_drops_width_step:
  assumes "geometry_length ctx (min_x, min_y) (max_x, min_y) < 2 * NetMinObfuscationDistanceM ctx"
    and "geometry_length ctx (min_x, min_y) (min_x, max_y) < 2 * NetMinObfuscationDistanceM ctx"
    and "\<not> geometry_length ctx (min_x, min_y) (max_x, min_y)
             * geometry_length ctx (min_x, min_y) (min_x, max_y)
           < view_area_sqm * NetMinClusterSizePercent ctx / 100"
  shows "extend_cluster ctx view_area_sqm min_x min_y max_x max_y ps
           = Inr \<lparr>x_min = min_x, x_max = max_x,
                  y_min = min_y - (NetMinObfuscationDistanceM ctx
                                    - geometry_length ctx (min_x, min_y) (min_x, max_y) / 2),
                  y_max = max_y + (NetMinObfuscationDistanceM ctx
                                    - geometry_length ctx (min_x, min_y) (min_x, max_y) / 2),
                  points = ps\<rparr>"
  using assms by (simp add: extend_cluster_def Let_def)

lemma small_view_bounds: "polygon_bounds small_view = Some (0, 0, 1 / 1000, 1 / 1000)"
  by (simp add: polygon_bounds_def small_view_def)

text \<open>The hypotheses of C1's theorem at the small view with no flights.\<close>

theorem extend_cluster_drops_width_step_witness:
  "geometry_length flat_ctx (0, 0) (1 / 1000, 0) < 2 * NetMinObfuscationDistanceM flat_ctx
   \<and> geometry_length flat_ctx (0, 0) (0, 1 / 1000) < 2 * NetMinObfuscationDistanceM flat_ctx
   \<and> \<not> geometry_length flat_ctx (0, 0) (1 / 1000, 0) * geometry_length flat_ctx (0, 0) (0, 1 / 1000)
         < 12321 * NetMinClusterSizePercent flat_ctx / 100
   \<and> extend_cluster flat_ctx 12321 0 0 (1 / 1000) (1 / 1000) []
       = Inr \<lparr>x_min = 0, x_max = 1 / 1000, y_min = - (489 / 2), y_max = 1 / 1000 + 489 / 2,
              points = []\<rparr>"
proof -
  have w: "geometry_length flat_ctx (0, 0) (1 / 1000, 0) = 111"
    and h: "geometry_length flat_ctx (0, 0) (0, 1 / 1000) = 111"
    and n: "NetMinObfuscationDistanceM flat_ctx = 300"
    and p: "NetMinClusterSizePercent flat_ctx = 15"
    by (simp_all add: flat_ctx_def)
  have a: "geometry_length flat_ctx (0, 0) (1 / 1000, 0) < 2 * NetMinObfuscationDistanceM flat_ctx"
    and b: "geometry_length flat_ctx (0, 0) (0, 1 / 1000) < 2 * NetMinObfuscationDistanceM flat_ctx"
    and c: "\<not> geometry_length flat_ctx (0, 0) (1 / 1000, 0) * geometry_length flat_ctx (0, 0) (0, 1 / 1000)
         < 12321 * NetMinClusterSizePercent flat_ctx / 100"
    by (simp_all add: w h n p)
  from extend_cluster_drops_width_step [OF a b c, of "[]"] a b c
  show ?thesis by (simp add: h n)
qed

lemma flat_ctx_simps:
  "geometry_length flat_ctx (x1, y1) (x2, y2) = 111000 * (\<bar>x2 - x1\<bar> + \<bar>y2 - y1\<bar>)"
  "geometry_area flat_ctx small_view = 12321"
  "NetMinObfuscationDistanceM flat_ctx = 300"
  "NetMinClusterSizePercent flat_ctx = 15"
  by (simp_all add: flat_ctx_def small_view_bounds)

text \<open>
  \<^verbatim>\<open>generate_cluster_details\<close> on the small view with no flights: the corners returned
  span the interval from 0 to 0.001 in x, 111 m under the stand-in, against the 600 m that
  the floor demands.
\<close>

theorem cluster_of_small_view_is_narrow:
  "generate_cluster_details flat_ctx [] small_view
     = Inr [\<lparr>corners = [(- (489 / 2), 0), (1 / 1000 + 489 / 2, 1 / 1000)],
              area_sqm = 12321, number_of_flights = 0\<rparr>]
   \<and> geometry_length flat_ctx (0, - (489 / 2)) (1 / 1000, - (489 / 2)) = 111
   \<and> 2 * NetMinObfuscationDistanceM flat_ctx = 600"
  by (simp add: generate_cluster_details_def small_view_bounds extend_cluster_def Let_def
      flat_ctx_simps)

end
